theory Spec2Isabelle
  imports Main "HOL-Library.AList"
begin

section \<open>Shared data of the services\<close>

text \<open>
  The repository holds six Lambda services, each a Go program of package \<open>main\<close>:
  \<open>crawling\<close> (headline extraction), \<open>gpt-api\<close> (the cleaning service),
  \<open>convert-to-markdown\<close> (cleaning calls and rendering), \<open>upload-to-s3\<close> (object
  store write), \<open>auto-push\<close> (the orchestrator) and \<open>upload-to-github\<close> (the batch
  commit). A service sees another one only through HTTP, so each program is modelled on
  its own, with the answers of the services it calls as its environment. Go strings are
  byte sequences; they are modelled as \<open>string\<close> (a list of 8-bit characters), a
  non-ASCII literal by its UTF-8 bytes. A Go \<open>error\<close> is modelled by its message. Log
  lines are left out, except the message of \<open>log.Fatalf\<close>.
\<close>

type_synonym error = string

text \<open>How a Go function ends: it returns, it panics, or \<open>log.Fatalf\<close> exits the process.\<close>

datatype 'a go_result = Return 'a | Panic string | Fatal string

record NewsArticle =
  Title :: string
  Content :: string
  Date :: string

record APIGatewayProxyResponse =
  StatusCode :: nat
  Body :: string
  Headers :: "(string \<times> string) list"

section \<open>Functions of the Go standard library used by the services\<close>

text \<open>\<open>strings.HasPrefix\<close>, \<open>strings.TrimPrefix\<close> and \<open>strings.Contains\<close>.\<close>

definition HasPrefix :: "string \<Rightarrow> string \<Rightarrow> bool" where
  "HasPrefix s p = (take (length p) s = p)"

definition TrimPrefix :: "string \<Rightarrow> string \<Rightarrow> string" where
  "TrimPrefix s p = (if HasPrefix s p then drop (length p) s else s)"

fun Contains :: "string \<Rightarrow> string \<Rightarrow> bool" where
  "Contains [] substr = (substr = [])"
| "Contains (c # s) substr = (if HasPrefix (c # s) substr then True else Contains s substr)"

text \<open>\<open>strconv.Itoa\<close> on a non-negative integer (a slice index, a status code).\<close>

definition digit_char :: "nat \<Rightarrow> char" where
  "digit_char d = char_of (48 + d)"

function Itoa :: "nat \<Rightarrow> string" where
  "Itoa n = (if n < 10 then [digit_char n] else Itoa (n div 10) @ [digit_char (n mod 10)])"
  by pat_completeness auto
termination
  by (relation "measure (\<lambda>n. n)") auto

declare Itoa.simps [simp del]

text \<open>
  \<open>path.Clean\<close> and \<open>path.Join\<close>, by path elements. \<open>split_slash\<close> cuts a path at every
  \<open>/\<close>. \<open>Clean\<close> drops empty and \<open>.\<close> elements, lets a \<open>..\<close> element remove the
  element before it (a rooted path drops a \<open>..\<close> that has nothing to remove, an unrooted
  one keeps it), joins the remaining elements by single slashes, and returns \<open>.\<close> for an
  empty result.
\<close>

fun split_slash :: "string \<Rightarrow> string list" where
  "split_slash [] = [[]]"
| "split_slash (c # s) =
     (if c = CHR ''/'' then [] # split_slash s
      else (case split_slash s of [] \<Rightarrow> [[c]] | e # es \<Rightarrow> (c # e) # es))"

fun join_slash :: "string list \<Rightarrow> string" where
  "join_slash [] = []"
| "join_slash [e] = e"
| "join_slash (e # es) = e @ ''/'' @ join_slash es"

definition clean_step :: "bool \<Rightarrow> string list \<Rightarrow> string \<Rightarrow> string list" where
  "clean_step rooted out e =
     (if e = [] then out
      else if e = ''.'' then out
      else if e = ''..'' then
        (if out \<noteq> [] \<and> last out \<noteq> ''..'' then butlast out
         else if rooted then out
         else out @ [''..''])
      else out @ [e])"

definition Clean :: "string \<Rightarrow> string" where
  "Clean path =
     (if path = [] then ''.''
      else
        let rooted = (hd path = CHR ''/'');
            out = foldl (clean_step rooted) [] (split_slash path)
        in if rooted then CHR ''/'' # join_slash out
           else if out = [] then ''.''
           else join_slash out)"

definition Join :: "string list \<Rightarrow> string" where
  "Join elem =
     (let used = filter (\<lambda>e. e \<noteq> []) elem
      in if used = [] then [] else Clean (join_slash used))"

section \<open>The extraction service (crawling/main.go)\<close>

text \<open>
  \<open>BASE_URL\<close> and \<open>BASE_URL_DETAIL\<close> are package variables read from the environment at
  start-up; the model takes them as parameters.
\<close>

definition isValidNewsLink :: "string \<Rightarrow> string \<Rightarrow> bool" where
  "isValidNewsLink BASE_URL_DETAIL link =
     (length link > 0 \<and> Contains link BASE_URL_DETAIL \<and> \<not> Contains link ''/comment/'')"

text \<open>
  The document enters \<open>ScrapeHeadlines\<close> only through the selection
  \<open>ul.sa_list li a\<close>: the model takes the selected anchors in document order, each by
  its \<open>href\<close> attribute (\<open>None\<close> when the anchor has none). \<open>headline_callback\<close> is the
  closure given to \<open>EachWithBreak\<close>, run over the anchors with the captured variables
  \<open>links\<close> and \<open>seen\<close> as state; it stops at the first anchor met with five links
  collected. \<open>link[0]\<close> on an empty \<open>href\<close> is an index out of range: Go panics.
\<close>

fun headline_callback ::
  "string \<Rightarrow> string \<Rightarrow> string option list \<Rightarrow> string list \<times> (string \<Rightarrow> bool)
    \<Rightarrow> (string list \<times> (string \<Rightarrow> bool)) go_result" where
  "headline_callback BASE_URL BASE_URL_DETAIL [] (links, seen) = Return (links, seen)"
| "headline_callback BASE_URL BASE_URL_DETAIL (a # anchors) (links, seen) =
     (if length links \<ge> 5 then Return (links, seen)
      else (case a of
          None \<Rightarrow> headline_callback BASE_URL BASE_URL_DETAIL anchors (links, seen)
        | Some href \<Rightarrow>
            (case href of
               [] \<Rightarrow> Panic ''index out of range [0] with length 0''
             | c # rest \<Rightarrow>
                 (let link = (if c = CHR ''/'' then BASE_URL @ href else href)
                  in if isValidNewsLink BASE_URL_DETAIL link \<and> \<not> seen link
                     then headline_callback BASE_URL BASE_URL_DETAIL anchors
                            (links @ [link], seen(link := True))
                     else headline_callback BASE_URL BASE_URL_DETAIL anchors (links, seen)))))"

definition ScrapeHeadlines ::
  "string \<Rightarrow> string \<Rightarrow> string option list \<Rightarrow> (error + string list) go_result" where
  "ScrapeHeadlines BASE_URL BASE_URL_DETAIL anchors =
     (case headline_callback BASE_URL BASE_URL_DETAIL anchors ([], \<lambda>_. False) of
        Return (links, seen) \<Rightarrow>
          if length links = 0 then Return (Inl ''no headlines found'') else Return (Inr links)
      | Panic msg \<Rightarrow> Panic msg
      | Fatal msg \<Rightarrow> Fatal msg)"

section \<open>The content transformer (convert-to-markdown)\<close>

text \<open>
  The program with \<open>FetchGPT\<close> and the local \<open>ConvertToMarkdown\<close> (in the sources as
  \<open>unnamed/part_004\<close>).
  The cleaning service is reached over HTTP. What the client observes of one exchange is
  whether the request could be built, whether it could be sent, the status code and the
  outcome of reading the body; the model takes these as the server's answer to a request.
  \<open>json.Marshal\<close> of a struct of two strings cannot fail and is left out.
\<close>

record GPTRequest =
  gpt_Content :: string
  gpt_Prompt :: string

record http_response =
  res_StatusCode :: nat
  res_Body :: "error + string"

record gpt_server =
  gpt_NewRequest :: "error option"
  gpt_Do :: "GPTRequest \<Rightarrow> error + http_response"

definition FetchGPT :: "gpt_server \<Rightarrow> GPTRequest \<Rightarrow> error + string" where
  "FetchGPT srv gptRequest =
     (case gpt_NewRequest srv of
        Some err \<Rightarrow> Inl (''failed to create HTTP request: '' @ err)
      | None \<Rightarrow>
          (case gpt_Do srv gptRequest of
             Inl err \<Rightarrow> Inl (''failed to send HTTP request: '' @ err)
           | Inr res \<Rightarrow>
               if res_StatusCode res \<noteq> 200
               then Inl (''GPT server returned status code '' @ Itoa (res_StatusCode res))
               else (case res_Body res of
                       Inl err \<Rightarrow> Inl (''failed to decode GPT response: '' @ err)
                     | Inr gptResponse \<Rightarrow> Inr gptResponse)))"

text \<open>
  \<open>ConvertToMarkdown\<close> of the transformer: three \<open>Sprintf\<close> blocks joined by blank lines.
  The Korean labels of the source (title, content, date) are written as their UTF-8 bytes.
\<close>

definition label_title :: string where
  "label_title = [CHR 0xEC, CHR 0xA0, CHR 0x9C, CHR 0xEB, CHR 0xAA, CHR 0xA9]"

definition label_content :: string where
  "label_content = [CHR 0xEB, CHR 0x82, CHR 0xB4, CHR 0xEC, CHR 0x9A, CHR 0xA9]"

definition label_date :: string where
  "label_date = [CHR 0xEB, CHR 0x82, CHR 0xA0, CHR 0xEC, CHR 0xA7, CHR 0x9C]"

definition ConvertToMarkdown :: "NewsArticle \<Rightarrow> string" where
  "ConvertToMarkdown article =
     (let title = ''# **'' @ label_title @ '': '' @ Title article @ ''**'';
          content = label_content @ '': '' @ Content article;
          date = ''**'' @ label_date @ '': '' @ Date article @ ''**''
      in title @ [CHR 0x0A, CHR 0x0A] @ ''  '' @ content @ [CHR 0x0A, CHR 0x0A] @ ''  '' @ date)"

text \<open>The fixed instruction of the date stage (a Korean sentence), as its UTF-8 bytes.\<close>

definition date_prompt :: string where
  "date_prompt =
     [
      CHR 0xEB, CHR 0x8B, CHR 0xA4, CHR 0xEC, CHR 0x9D, CHR 0x8C, CHR 0x20, CHR 0xED,
      CHR 0x85, CHR 0x8D, CHR 0xEC, CHR 0x8A, CHR 0xA4, CHR 0xED, CHR 0x8A, CHR 0xB8,
      CHR 0xEC, CHR 0x97, CHR 0x90, CHR 0xEC, CHR 0x84, CHR 0x9C, CHR 0x20, CHR 0xEB,
      CHR 0x82, CHR 0xA0, CHR 0xEC, CHR 0xA7, CHR 0x9C, CHR 0xEA, CHR 0xB0, CHR 0x80,
      CHR 0x20, CHR 0xEC, CHR 0x97, CHR 0xAC, CHR 0xEB, CHR 0x9F, CHR 0xAC, CHR 0xEA,
      CHR 0xB0, CHR 0x9C, CHR 0x20, CHR 0xEC, CHR 0x9E, CHR 0x88, CHR 0xEC, CHR 0x9C,
      CHR 0xBC, CHR 0xEB, CHR 0xA9, CHR 0xB4, CHR 0x20, CHR 0xEC, CHR 0x95, CHR 0x9E,
      CHR 0xEC, CHR 0x97, CHR 0x90, CHR 0x20, CHR 0xEA, CHR 0xB2, CHR 0x83, CHR 0xEB,
      CHR 0xA7, CHR 0x8C, CHR 0x20, CHR 0xEC, CHR 0x84, CHR 0xA0, CHR 0xED, CHR 0x83,
      CHR 0x9D, CHR 0xED, CHR 0x95, CHR 0xB4, CHR 0xEC, CHR 0x84, CHR 0x9C, CHR 0x20,
      CHR 0xED, CHR 0x95, CHR 0x9C, CHR 0x20, CHR 0xEB, CHR 0x82, CHR 0xA0, CHR 0xEC,
      CHR 0xA7, CHR 0x9C, CHR 0xEB, CHR 0xA7, CHR 0x8C, CHR 0x20, CHR 0xEB, CHR 0x82,
      CHR 0xA8, CHR 0xEA, CHR 0xB2, CHR 0x8C, CHR 0x20, CHR 0xED, CHR 0x95, CHR 0xB4,
      CHR 0xEC, CHR 0xA3, CHR 0xBC, CHR 0xEA, CHR 0xB3, CHR 0xA0, CHR 0x2C, CHR 0x20,
      CHR 0x27, CHR 0x79, CHR 0x79, CHR 0x79, CHR 0x79, CHR 0xEB, CHR 0x85, CHR 0x84,
      CHR 0x20, CHR 0x6D, CHR 0x6D, CHR 0xEC, CHR 0x9B, CHR 0x94, CHR 0x20, CHR 0x64,
      CHR 0x64, CHR 0xEC, CHR 0x9D, CHR 0xBC, CHR 0x20, CHR 0x68, CHR 0x68, CHR 0xEC,
      CHR 0x8B, CHR 0x9C, CHR 0x20, CHR 0x6D, CHR 0x6D, CHR 0xEB, CHR 0xB6, CHR 0x84,
      CHR 0x27, CHR 0x20, CHR 0xED, CHR 0x8F, CHR 0xAC, CHR 0xEB, CHR 0xA7, CHR 0xB7,
      CHR 0xEC, CHR 0x9C, CHR 0xBC, CHR 0xEB, CHR 0xA1, CHR 0x9C, CHR 0x20, CHR 0xEC,
      CHR 0x88, CHR 0x98, CHR 0xEC, CHR 0xA0, CHR 0x95, CHR 0xED, CHR 0x95, CHR 0xB4,
      CHR 0xEC, CHR 0xA3, CHR 0xBC, CHR 0xEC, CHR 0x84, CHR 0xB8, CHR 0xEC, CHR 0x9A,
      CHR 0x94, CHR 0x2E, CHR 0x20, CHR 0xEC, CHR 0x98, CHR 0x88, CHR 0xEB, CHR 0xA5,
      CHR 0xBC, CHR 0x20, CHR 0xEB, CHR 0x93, CHR 0xA4, CHR 0xEC, CHR 0x96, CHR 0xB4,
      CHR 0x20, CHR 0x27, CHR 0x32, CHR 0x30, CHR 0x32, CHR 0x35, CHR 0xEB, CHR 0x85,
      CHR 0x84, CHR 0x20, CHR 0x30, CHR 0x31, CHR 0xEC, CHR 0x9B, CHR 0x94, CHR 0x20,
      CHR 0x30, CHR 0x34, CHR 0xEC, CHR 0x9D, CHR 0xBC, CHR 0x20, CHR 0xEC, CHR 0x98,
      CHR 0xA4, CHR 0xED, CHR 0x9B, CHR 0x84, CHR 0x20, CHR 0x33, CHR 0xEC, CHR 0x8B,
      CHR 0x9C, CHR 0x20, CHR 0x32, CHR 0x35, CHR 0xEB, CHR 0xB6, CHR 0x84, CHR 0x32,
      CHR 0x30, CHR 0x32, CHR 0x35, CHR 0xEB, CHR 0x85, CHR 0x84, CHR 0x20, CHR 0x30,
      CHR 0x31, CHR 0xEC, CHR 0x9B, CHR 0x94, CHR 0x20, CHR 0x30, CHR 0x34, CHR 0xEC,
      CHR 0x9D, CHR 0xBC, CHR 0x20, CHR 0xEC, CHR 0x98, CHR 0xA4, CHR 0xED, CHR 0x9B,
      CHR 0x84, CHR 0x20, CHR 0x34, CHR 0xEC, CHR 0x8B, CHR 0x9C, CHR 0x20, CHR 0x30,
      CHR 0x38, CHR 0xEB, CHR 0xB6, CHR 0x84, CHR 0x27, CHR 0x20, CHR 0xEC, CHR 0x9D,
      CHR 0xB4, CHR 0xEB, CHR 0x9F, CHR 0xB0, CHR 0xEC, CHR 0x8B, CHR 0x9D, CHR 0xEC,
      CHR 0x9C, CHR 0xBC, CHR 0xEB, CHR 0xA1, CHR 0x9C, CHR 0x20, CHR 0xEC, CHR 0x9E,
      CHR 0x88, CHR 0xEB, CHR 0x8B, CHR 0xA4, CHR 0xEB, CHR 0xA9, CHR 0xB4, CHR 0x20,
      CHR 0x27, CHR 0x32, CHR 0x30, CHR 0x32, CHR 0x35, CHR 0xEB, CHR 0x85, CHR 0x84,
      CHR 0x20, CHR 0x30, CHR 0x31, CHR 0xEC, CHR 0x9B, CHR 0x94, CHR 0x20, CHR 0x30,
      CHR 0x34, CHR 0xEC, CHR 0x9D, CHR 0xBC, CHR 0x20, CHR 0xEC, CHR 0x98, CHR 0xA4,
      CHR 0xED, CHR 0x9B, CHR 0x84, CHR 0x20, CHR 0x33, CHR 0xEC, CHR 0x8B, CHR 0x9C,
      CHR 0x20, CHR 0x32, CHR 0x35, CHR 0xEB, CHR 0xB6, CHR 0x84, CHR 0x27, CHR 0xEB,
      CHR 0xA7, CHR 0x8C, CHR 0x20, CHR 0xEB, CHR 0x82, CHR 0xA8, CHR 0xEA, CHR 0xB2,
      CHR 0x8C, CHR 0x20, CHR 0xED, CHR 0x95, CHR 0xB4, CHR 0xEC, CHR 0xA3, CHR 0xBC,
      CHR 0xEC, CHR 0x84, CHR 0xB8, CHR 0xEC, CHR 0x9A, CHR 0x94, CHR 0x2E
     ]"

text \<open>
  The three content instructions come from the environment
  (\<open>PROMPT_CONTENT_1\<close>, \<open>PROMPT_CONTENT_2\<close>, \<open>PROMPT_CONTENT_3\<close>).
\<close>

record prompts =
  PROMPT_CONTENT_1 :: string
  PROMPT_CONTENT_2 :: string
  PROMPT_CONTENT_3 :: string

text \<open>
  The handler starts two goroutines and waits for both. The first reads and writes only
  \<open>article.Content\<close>, the second only \<open>article.Date\<close>, so neither sees the other's
  write and their interleaving does not matter: each is modelled as a function of the
  article as parsed, returning the requests it passed to \<open>FetchGPT\<close> in program order
  and the value it assigns to its field (\<open>None\<close> when it returns early, after logging).
\<close>

definition content_goroutine ::
  "gpt_server \<Rightarrow> prompts \<Rightarrow> NewsArticle \<Rightarrow> GPTRequest list \<times> string option" where
  "content_goroutine srv p article =
     (let r1 = \<lparr>gpt_Content = Content article, gpt_Prompt = PROMPT_CONTENT_1 p\<rparr>;
          r2 = \<lparr>gpt_Content = Content article, gpt_Prompt = PROMPT_CONTENT_2 p\<rparr>;
          r3 = \<lparr>gpt_Content = Content article, gpt_Prompt = PROMPT_CONTENT_3 p\<rparr>
      in case FetchGPT srv r1 of
           Inl err \<Rightarrow> ([r1], None)
         | Inr cleanedContent1 \<Rightarrow>
             (case FetchGPT srv r2 of
                Inl err \<Rightarrow> ([r1, r2], None)
              | Inr cleanedContent2 \<Rightarrow>
                  (case FetchGPT srv r3 of
                     Inl err \<Rightarrow> ([r1, r2, r3], None)
                   | Inr cleanedContent \<Rightarrow> ([r1, r2, r3], Some cleanedContent))))"

definition date_goroutine ::
  "gpt_server \<Rightarrow> NewsArticle \<Rightarrow> GPTRequest list \<times> string option" where
  "date_goroutine srv article =
     (let r = \<lparr>gpt_Content = Date article, gpt_Prompt = date_prompt\<rparr>
      in case FetchGPT srv r of
           Inl err \<Rightarrow> ([r], None)
         | Inr cleanedDate \<Rightarrow> ([r], Some cleanedDate))"

text \<open>
  \<open>Handler\<close> of the transformer. \<open>json.Unmarshal\<close> is the JSON library's; its outcome on
  the request body is an input of the model. The result is the response, the Go error
  (always \<open>nil\<close>) and the requests sent to the cleaning service, the content goroutine's
  before the date goroutine's.
\<close>

definition Handler_convert ::
  "gpt_server \<Rightarrow> prompts \<Rightarrow> (string \<Rightarrow> error + NewsArticle) \<Rightarrow> string
    \<Rightarrow> APIGatewayProxyResponse \<times> error option \<times> GPTRequest list" where
  "Handler_convert srv p Unmarshal body =
     (case Unmarshal body of
        Inl err \<Rightarrow>
          (\<lparr>StatusCode = 400, Body = ''{\"error\": \"Invalid JSON input\"}'', Headers = []\<rparr>,
           None, [])
      | Inr article \<Rightarrow>
          (let (reqs1, newContent) = content_goroutine srv p article;
               (reqs2, newDate) = date_goroutine srv article;
               article1 = (case newContent of None \<Rightarrow> article
                           | Some c \<Rightarrow> article\<lparr>Content := c\<rparr>);
               article2 = (case newDate of None \<Rightarrow> article1
                           | Some d \<Rightarrow> article1\<lparr>Date := d\<rparr>);
               markdown = ConvertToMarkdown article2
           in if length markdown = 0
              then (\<lparr>StatusCode = 500, Body = ''{\"error\": \"No articles processed\"}'',
                     Headers = []\<rparr>, None, reqs1 @ reqs2)
              else (\<lparr>StatusCode = 200, Body = markdown,
                     Headers = [(''Content-Type'', ''text/plain'')]\<rparr>, None, reqs1 @ reqs2)))"

section \<open>The object store writer (upload-to-s3)\<close>

text \<open>
  The program with \<open>S3Uploader\<close> (in the sources after the text of \<open>README.md\<close>).
  \<open>LambdaHandler\<close> stores the request body under a key built from the current day and
  the \<open>x-category-sniij\<close> header: \<open>Sprintf("news/%s/%s_%s.md", day, day, category)\<close>,
  both days read from the clock by \<open>time.Now().Format("2006-01-02")\<close>.
\<close>

definition LambdaHandler_filename :: "string \<Rightarrow> string \<Rightarrow> string \<Rightarrow> string" where
  "LambdaHandler_filename day1 day2 category =
     ''news/'' @ day1 @ ''/'' @ day2 @ ''_'' @ category @ ''.md''"

section \<open>The orchestrator (auto-push)\<close>

text \<open>
  The program with \<open>processArticles\<close> (in the sources the second program of
  \<open>gpt-api/main.go\<close>).
  The orchestrator's only effects are HTTP requests (and log lines, left out). Its
  environment is the four server URLs as \<open>QueryUnescape(os.Getenv(...))\<close> returns them,
  the HTTP client (\<open>http.NewRequest\<close> by method and URL, \<open>httpClient.Do\<close> by request)
  and the JSON library. Every function returns the requests it sent, in program order,
  beside its Go result. Of a request's query the model keeps the parameter that
  \<open>Scrape\<close> adds.
\<close>

record http_request =
  req_Method :: string
  req_URL :: string
  req_Query :: "(string \<times> string) list"
  req_Header :: "(string \<times> string) list"
  req_Body :: string

record S3Response =
  Message :: string
  Filename :: string

record autopush_env =
  CRAWLING_SERVER :: "error + string"
  CONVERT_SERVER :: "error + string"
  UPLOAD_TO_S3_SEVER :: "error + string"
  UPLOAD_TO_GITHUB_SERVER :: "error + string"
  http_NewRequest :: "string \<Rightarrow> string \<Rightarrow> error option"
  http_Do :: "http_request \<Rightarrow> error + http_response"
  Marshal_article :: "NewsArticle \<Rightarrow> string"
  Unmarshal_articles :: "string \<Rightarrow> error + NewsArticle list"
  Unmarshal_S3Response :: "string \<Rightarrow> error + S3Response"

definition Scrape ::
  "autopush_env \<Rightarrow> string \<Rightarrow> http_request list \<times> (error + NewsArticle list)" where
  "Scrape env url =
     (case CRAWLING_SERVER env of
        Inl err \<Rightarrow> ([], Inl (''failed to get server url: '' @ err))
      | Inr serverURL \<Rightarrow>
          (case http_NewRequest env ''GET'' serverURL of
             Some err \<Rightarrow> ([], Inl (''failed to create HTTP request: '' @ err))
           | None \<Rightarrow>
               (let req = \<lparr>req_Method = ''GET'', req_URL = serverURL,
                            req_Query = [(''url'', url)], req_Header = [], req_Body = []\<rparr>
                in case http_Do env req of
                     Inl err \<Rightarrow> ([req], Inl (''failed to send HTTP request: '' @ err))
                   | Inr res \<Rightarrow>
                       if res_StatusCode res \<noteq> 200
                       then ([req], Inl (''server returned status code ''
                                          @ Itoa (res_StatusCode res)))
                       else (case res_Body res of
                               Inl err \<Rightarrow>
                                 ([req], Inl (''failed to read response body: '' @ err))
                             | Inr body \<Rightarrow>
                                 (case Unmarshal_articles env body of
                                    Inl err \<Rightarrow> ([req], Inl (''Invalid JSON input: '' @ err))
                                  | Inr articles \<Rightarrow> ([req], Inr articles))))))"

text \<open>
  \<open>ConvertToMarkdown\<close> of the orchestrator posts the article to the transformer.
  \<open>json.Marshal\<close> of a struct of three strings cannot fail.
\<close>

definition ConvertToMarkdown_remote ::
  "autopush_env \<Rightarrow> NewsArticle \<Rightarrow> http_request list \<times> (error + string)" where
  "ConvertToMarkdown_remote env article =
     (case CONVERT_SERVER env of
        Inl err \<Rightarrow> ([], Inl (''failed to get server url: '' @ err))
      | Inr serverURL \<Rightarrow>
          (case http_NewRequest env ''POST'' serverURL of
             Some err \<Rightarrow> ([], Inl (''failed to create HTTP request: '' @ err))
           | None \<Rightarrow>
               (let req = \<lparr>req_Method = ''POST'', req_URL = serverURL, req_Query = [],
                            req_Header = [(''Content-Type'', ''application/json'')],
                            req_Body = Marshal_article env article\<rparr>
                in case http_Do env req of
                     Inl err \<Rightarrow> ([req], Inl (''failed to send HTTP request: '' @ err))
                   | Inr res \<Rightarrow>
                       if res_StatusCode res \<noteq> 200
                       then ([req], Inl (''ConvertToMarkdown server returned status code ''
                                          @ Itoa (res_StatusCode res)))
                       else (case res_Body res of
                               Inl err \<Rightarrow>
                                 ([req], Inl (''failed to read response body: '' @ err))
                             | Inr resBody \<Rightarrow> ([req], Inr resBody)))))"

text \<open>
  \<open>cleanANSI\<close> deletes every leftmost match of the regular expression
  \<open>\x1B\[[0-9;]*[a-zA-Z]\<close>. \<open>ansi_tail s\<close> matches the expression's part after the
  escape byte at the start of \<open>s\<close> and returns what follows the match. The parameter
  bytes and the final letter are disjoint classes, so the greedy star never gives back.
\<close>

definition is_ansi_param :: "char \<Rightarrow> bool" where
  "is_ansi_param c = (c \<in> set ''0123456789;'')"

definition is_ascii_letter :: "char \<Rightarrow> bool" where
  "is_ascii_letter c =
     (c \<in> set ''abcdefghijklmnopqrstuvwxyzABCDEFGHIJKLMNOPQRSTUVWXYZ'')"

definition ansi_tail :: "string \<Rightarrow> string option" where
  "ansi_tail s =
     (case s of
        [] \<Rightarrow> None
      | c # t \<Rightarrow>
          if c = CHR ''[''
          then (case dropWhile is_ansi_param t of
                  [] \<Rightarrow> None
                | l # r \<Rightarrow> if is_ascii_letter l then Some r else None)
          else None)"

lemma ansi_tail_shorter: "ansi_tail s = Some r \<Longrightarrow> length r < length s"
proof -
  assume a: "ansi_tail s = Some r"
  then obtain c t where s: "s = c # t"
    by (cases s) (simp_all add: ansi_tail_def)
  from a s obtain l where d: "dropWhile is_ansi_param t = l # r"
    by (auto simp: ansi_tail_def split: if_splits list.splits)
  have "length (dropWhile is_ansi_param t) \<le> length t"
    by (rule length_dropWhile_le)
  with d s show ?thesis by simp
qed

function cleanANSI :: "string \<Rightarrow> string" where
  "cleanANSI [] = []"
| "cleanANSI (c # s) =
     (if c = CHR 0x1B
      then (case ansi_tail s of
              Some r \<Rightarrow> cleanANSI r
            | None \<Rightarrow> c # cleanANSI s)
      else c # cleanANSI s)"
  by pat_completeness auto
termination
  by (relation "measure length") (auto dest: ansi_tail_shorter)

text \<open>
  \<open>UploadToS3\<close> and \<open>UploadToGitHub\<close> return nothing: a failure is logged and the
  function returns early. The model returns the requests sent and the failure logged
  (\<open>None\<close> on the path that reaches the end). The conversion \<open>[]byte(string(markdown))\<close>
  taken for invalid UTF-8 leaves the bytes as they are.
\<close>

definition UploadToS3 ::
  "autopush_env \<Rightarrow> string \<Rightarrow> string \<Rightarrow> nat \<Rightarrow> http_request list \<times> error option" where
  "UploadToS3 env markdown category i =
     (let cleanedMarkdown = cleanANSI markdown
      in case UPLOAD_TO_S3_SEVER env of
           Inl err \<Rightarrow> ([], Some (''failed to get server url: '' @ err))
         | Inr serverURL \<Rightarrow>
             (case http_NewRequest env ''POST'' serverURL of
                Some err \<Rightarrow> ([], Some (''failed to create HTTP request: '' @ err))
              | None \<Rightarrow>
                  (let req = \<lparr>req_Method = ''POST'', req_URL = serverURL, req_Query = [],
                               req_Header = [(''x-category-sniij'', category @ ''_'' @ Itoa i)],
                               req_Body = cleanedMarkdown\<rparr>
                   in case http_Do env req of
                        Inl err \<Rightarrow> ([req], Some (''failed to send HTTP request: '' @ err))
                      | Inr res \<Rightarrow>
                          if res_StatusCode res \<noteq> 200
                          then ([req], Some (''UploadToS3 server returned status code ''
                                             @ Itoa (res_StatusCode res)))
                          else (case res_Body res of
                                  Inl err \<Rightarrow>
                                    ([req], Some (''failed to read response body: '' @ err))
                                | Inr resBody \<Rightarrow>
                                    (case Unmarshal_S3Response env resBody of
                                       Inl err \<Rightarrow>
                                         ([req], Some (''Invalid JSON input: '' @ err))
                                     | Inr response \<Rightarrow> ([req], None))))))"

definition UploadToGitHub :: "autopush_env \<Rightarrow> http_request list \<times> error option" where
  "UploadToGitHub env =
     (case UPLOAD_TO_GITHUB_SERVER env of
        Inl err \<Rightarrow> ([], Some (''failed to get server url: '' @ err))
      | Inr serverURL \<Rightarrow>
          (case http_NewRequest env ''GET'' serverURL of
             Some err \<Rightarrow> ([], Some (''failed to create HTTP request: '' @ err))
           | None \<Rightarrow>
               (let req = \<lparr>req_Method = ''GET'', req_URL = serverURL, req_Query = [],
                            req_Header = [], req_Body = []\<rparr>
                in case http_Do env req of
                     Inl err \<Rightarrow> ([req], Some (''failed to send HTTP request: '' @ err))
                   | Inr res \<Rightarrow>
                       if res_StatusCode res \<noteq> 200
                       then ([req], Some (''UploadToGitHub returned status code ''
                                          @ Itoa (res_StatusCode res)))
                       else ([req], None))))"

text \<open>
  \<open>processArticles\<close> starts one goroutine per article and waits for all of them;
  \<open>article_task\<close> is that goroutine's body. The goroutines share nothing but the wait
  group, so the requests of each are independent of the others' and the model lists
  them task by task, in slice order.
\<close>

definition article_task ::
  "autopush_env \<Rightarrow> string \<Rightarrow> nat \<times> NewsArticle \<Rightarrow> http_request list" where
  "article_task env category ia =
     (case ConvertToMarkdown_remote env (snd ia) of
        (sent, Inl err) \<Rightarrow> sent
      | (sent, Inr markdown) \<Rightarrow> sent @ fst (UploadToS3 env markdown category (fst ia)))"

definition processArticles :: "autopush_env \<Rightarrow> string \<Rightarrow> string \<Rightarrow> http_request list" where
  "processArticles env url category =
     (case Scrape env url of
        (sent, Inl err) \<Rightarrow> sent
      | (sent, Inr articles) \<Rightarrow>
          sent @ concat (map (article_task env category) (enumerate 0 articles)))"

text \<open>
  \<open>Handler\<close> of the orchestrator: one goroutine per entry of the category map, a wait
  for all of them, then the publish call. A Go map is ranged over in no fixed order;
  the model takes the entries as a list, the literal in the order of the source.
\<close>

definition urls :: "(string \<times> string) list" where
  "urls =
     [(''politics'', ''https://news.naver.com/section/100''),
      (''economy'', ''https://news.naver.com/section/101''),
      (''society'', ''https://news.naver.com/section/102''),
      (''it'', ''https://news.naver.com/section/105''),
      (''world'', ''https://news.naver.com/section/104'')]"

definition fan_out :: "autopush_env \<Rightarrow> (string \<times> string) list \<Rightarrow> http_request list" where
  "fan_out env categories =
     concat (map (\<lambda>(category, url). processArticles env url category) categories)"

definition Handler_autopush ::
  "autopush_env \<Rightarrow> (APIGatewayProxyResponse \<times> error option) \<times> http_request list" where
  "Handler_autopush env =
     (let sent1 = fan_out env urls;
          sent2 = fst (UploadToGitHub env)
      in ((\<lparr>StatusCode = 200, Body = [], Headers = []\<rparr>, None), sent1 @ sent2))"

section \<open>The atomic publisher (upload-to-github)\<close>

text \<open>
  The program with \<open>S3Downloader\<close> and \<open>GitHubUploader\<close> (in the sources as
  \<open>unnamed/part_003\<close>).

  The object store as the publisher sees it. A paginated listing is a finite run of
  page fetches: a fetch fails, or returns the last page, or returns a page and leaves
  more to fetch (\<open>HasMorePages\<close> is true before the first fetch and after a page that
  carries a continuation token). \<open>GetObject\<close> fails, or returns a body whose reading
  fails or yields the bytes.
\<close>

datatype listing = Failed error | LastPage "string list" | Page "string list" listing

record s3_bucket =
  ListObjectsV2 :: "string \<Rightarrow> listing"
  GetObject :: "string \<Rightarrow> error + (error + string)"

fun ListFiles_pages :: "listing \<Rightarrow> string list \<Rightarrow> error + string list" where
  "ListFiles_pages (Failed err) files = Inl (''failed to list files: '' @ err)"
| "ListFiles_pages (LastPage contents) files = Inr (files @ contents)"
| "ListFiles_pages (Page contents rest) files = ListFiles_pages rest (files @ contents)"

definition ListFiles :: "s3_bucket \<Rightarrow> string \<Rightarrow> error + string list" where
  "ListFiles d prefix = ListFiles_pages (ListObjectsV2 d prefix) []"

definition DownloadFile :: "s3_bucket \<Rightarrow> string \<Rightarrow> error + string" where
  "DownloadFile d key =
     (case GetObject d key of
        Inl err \<Rightarrow> Inl (''failed to download file from S3: '' @ err)
      | Inr body \<Rightarrow>
          (case body of
             Inl err \<Rightarrow> Inl (''failed to read S3 file content: '' @ err)
           | Inr bytes \<Rightarrow> Inr bytes))"

text \<open>
  The repository host. \<open>main_ref\<close> is the commit that \<open>heads/main\<close> points to and
  \<open>calls\<close> the Git data calls received so far; the remaining fields say how the host
  answers: whether reading the reference fails, the base tree of a commit, the tree
  made from a base tree and entries, the commit made from a message, a tree and a
  parent, and whether a non-forced update of the reference to a commit is rejected.
  Only an accepted \<open>UpdateRef\<close> changes \<open>main_ref\<close>.
\<close>

record TreeEntry =
  entry_Path :: string
  entry_Type :: string
  entry_Content :: string
  entry_Mode :: string

datatype github_call =
    GetRef
  | GetTree string
  | CreateTree string "TreeEntry list"
  | CreateCommit string string string
  | UpdateRef string

record github =
  main_ref :: string
  calls :: "github_call list"
  GetRef_err :: "error option"
  GetTree_res :: "string \<Rightarrow> error + string"
  CreateTree_res :: "string \<Rightarrow> TreeEntry list \<Rightarrow> error + string"
  CreateCommit_res :: "string \<Rightarrow> string \<Rightarrow> string \<Rightarrow> error + string"
  UpdateRef_err :: "string \<Rightarrow> error option"

definition called :: "github_call \<Rightarrow> github \<Rightarrow> github" where
  "called c gh = gh\<lparr>calls := calls gh @ [c]\<rparr>"

text \<open>
  The files are a Go map from path to content, modelled as an association list with
  distinct keys: an assignment \<open>m[k] = v\<close> is \<open>AList.update k v m\<close> and \<open>len(m)\<close> is
  the length. \<open>tree_entries\<close> is the loop that turns the map into tree entries; Go
  ranges over a map in no fixed order, the model in the order of the list.
\<close>

definition tree_entries :: "(string \<times> string) list \<Rightarrow> TreeEntry list" where
  "tree_entries files =
     map (\<lambda>(filePath, content).
            \<lparr>entry_Path = filePath, entry_Type = ''blob'', entry_Content = content,
             entry_Mode = ''100644''\<rparr>) files"

definition UploadFiles ::
  "github \<Rightarrow> (string \<times> string) list \<Rightarrow> string \<Rightarrow> error option \<times> github" where
  "UploadFiles u files commitMessage =
     (let u1 = called GetRef u
      in case GetRef_err u of
           Some err \<Rightarrow> (Some (''failed to get HEAD reference: '' @ err), u1)
         | None \<Rightarrow>
             (let refSHA = main_ref u;
                  u2 = called (GetTree refSHA) u1
              in case GetTree_res u refSHA of
                   Inl err \<Rightarrow> (Some (''failed to get base tree: '' @ err), u2)
                 | Inr baseTree \<Rightarrow>
                     (let entries = tree_entries files;
                          u3 = called (CreateTree baseTree entries) u2
                      in case CreateTree_res u baseTree entries of
                           Inl err \<Rightarrow> (Some (''failed to create tree: '' @ err), u3)
                         | Inr newTree \<Rightarrow>
                             (let u4 = called (CreateCommit commitMessage newTree refSHA) u3
                              in case CreateCommit_res u commitMessage newTree refSHA of
                                   Inl err \<Rightarrow>
                                     (Some (''failed to create commit: '' @ err), u4)
                                 | Inr commit \<Rightarrow>
                                     (let u5 = called (UpdateRef commit) u4
                                      in case UpdateRef_err u commit of
                                           Some err \<Rightarrow>
                                             (Some (''failed to update HEAD reference: ''
                                                    @ err), u5)
                                         | None \<Rightarrow>
                                             (None, u5\<lparr>main_ref := commit\<rparr>))))))"

text \<open>
  \<open>Handler\<close> of the publisher. Its environment: the five required variables, the outcome
  of loading the AWS configuration, and the day \<open>time.Now().Format("2006-01-02")\<close>.
  \<open>download_loop\<close> is the loop over the listed keys that fills \<open>fileContents\<close>; a key
  whose download fails is logged and skipped.
\<close>

record publisher_env =
  AWS_REGION :: string
  S3_BUCKET_NAME :: string
  TOKEN_GITHUB :: string
  OWNER_GITHUB :: string
  REPO_GITHUB :: string
  LoadDefaultConfig :: "error option"
  today :: string

definition githubFilePath :: "string \<Rightarrow> string \<Rightarrow> string \<Rightarrow> string" where
  "githubFilePath day prefix fileKey = Join [day, TrimPrefix fileKey prefix]"

fun download_loop ::
  "s3_bucket \<Rightarrow> string \<Rightarrow> string \<Rightarrow> string list \<Rightarrow> (string \<times> string) list
    \<Rightarrow> (string \<times> string) list" where
  "download_loop d day prefix [] fileContents = fileContents"
| "download_loop d day prefix (fileKey # files) fileContents =
     (case DownloadFile d fileKey of
        Inl err \<Rightarrow> download_loop d day prefix files fileContents
      | Inr fileContent \<Rightarrow>
          download_loop d day prefix files
            (AList.update (githubFilePath day prefix fileKey) fileContent fileContents))"

definition commit_label :: string where
  "commit_label =
     [CHR 0xEC, CHR 0x98, CHR 0xA4, CHR 0xEB, CHR 0x8A, CHR 0x98, CHR 0xEC, CHR 0x9D,
      CHR 0x98, CHR 0x20, CHR 0xEA, CHR 0xB8, CHR 0xB0, CHR 0xEC, CHR 0x82, CHR 0xAC,
      CHR 0x20, CHR 0xEC, CHR 0xB6, CHR 0x94, CHR 0xEA, CHR 0xB0, CHR 0x80]"

definition Handler_github ::
  "publisher_env \<Rightarrow> s3_bucket \<Rightarrow> github
    \<Rightarrow> (APIGatewayProxyResponse \<times> error option) go_result \<times> github" where
  "Handler_github env d u =
     (if AWS_REGION env = [] \<or> S3_BUCKET_NAME env = [] \<or> TOKEN_GITHUB env = []
         \<or> OWNER_GITHUB env = [] \<or> REPO_GITHUB env = []
      then (Fatal ''One or more required environment variables are missing.'', u)
      else (case LoadDefaultConfig env of
          Some err \<Rightarrow> (Fatal (''failed to load AWS config: '' @ err), u)
        | None \<Rightarrow>
            (let prefix = ''news/'' @ today env @ ''/''
             in case ListFiles d prefix of
                  Inl err \<Rightarrow> (Fatal (''failed to list files in S3: '' @ err), u)
                | Inr files \<Rightarrow>
                    (let fileContents = download_loop d (today env) prefix files []
                     in if length fileContents > 0
                        then (case UploadFiles u fileContents
                                     (''Add: '' @ commit_label @ ''('' @ today env @ '')'') of
                                (Some err, u') \<Rightarrow>
                                  (Return (\<lparr>StatusCode = 500,
                                            Body = ''{\"error\": \"Failed to upload files: ''
                                                   @ err @ ''\"}'',
                                            Headers = []\<rparr>, None), u')
                              | (None, u') \<Rightarrow>
                                  (Return (\<lparr>StatusCode = 200,
                                            Body = ''{\"message\": \"Files uploaded successfully in a single commit\"}'',
                                            Headers = []\<rparr>, None), u'))
                        else (Return (\<lparr>StatusCode = 200,
                                Body = ''{\"message\": \"Files uploaded successfully in a single commit\"}'',
                                Headers = []\<rparr>, None), u)))))"

section \<open>Notions used to state the properties\<close>

text \<open>The Git data calls a run adds to those the host had already received.\<close>

definition new_calls :: "github \<Rightarrow> github \<Rightarrow> github_call list" where
  "new_calls u u' = drop (length (calls u)) (calls u')"

text \<open>
  What a listing holds, in the words of the specification: the keys of all its pages, in
  order, and the failure of the page fetch that fails, if one does.
\<close>

fun all_keys :: "listing \<Rightarrow> string list" where
  "all_keys (Failed err) = []"
| "all_keys (LastPage contents) = contents"
| "all_keys (Page contents rest) = contents @ all_keys rest"

fun page_failure :: "listing \<Rightarrow> error option" where
  "page_failure (Failed err) = Some err"
| "page_failure (LastPage contents) = None"
| "page_failure (Page contents rest) = page_failure rest"

text \<open>Concrete environments, on which the properties are run.\<close>

definition example_env :: publisher_env where
  "example_env =
     \<lparr>AWS_REGION = ''ap-northeast-2'', S3_BUCKET_NAME = ''news-bucket'',
      TOKEN_GITHUB = ''token'', OWNER_GITHUB = ''owner'', REPO_GITHUB = ''repo'',
      LoadDefaultConfig = None, today = ''2025-01-04''\<rparr>"

definition example_github :: github where
  "example_github =
     \<lparr>main_ref = ''c0'', calls = [],
      GetRef_err = None,
      GetTree_res = (\<lambda>sha. Inr ''t0''),
      CreateTree_res = (\<lambda>base entries. Inr ''t1''),
      CreateCommit_res = (\<lambda>message tree parent. Inr ''c1''),
      UpdateRef_err = (\<lambda>sha. None)\<rparr>"

definition failing_github :: github where
  "failing_github = example_github\<lparr>CreateCommit_res := (\<lambda>message tree parent. Inl ''502'')\<rparr>"

definition empty_bucket :: s3_bucket where
  "empty_bucket =
     \<lparr>ListObjectsV2 = (\<lambda>prefix. LastPage []), GetObject = (\<lambda>key. Inl ''NoSuchKey'')\<rparr>"

text \<open>
  The three requests of the content stages and the request of the date stage, as the
  claims describe them: each content request carries the article's content as parsed.
\<close>

definition content_requests :: "prompts \<Rightarrow> NewsArticle \<Rightarrow> GPTRequest list" where
  "content_requests p article =
     [\<lparr>gpt_Content = Content article, gpt_Prompt = PROMPT_CONTENT_1 p\<rparr>,
      \<lparr>gpt_Content = Content article, gpt_Prompt = PROMPT_CONTENT_2 p\<rparr>,
      \<lparr>gpt_Content = Content article, gpt_Prompt = PROMPT_CONTENT_3 p\<rparr>]"

definition date_request :: "NewsArticle \<Rightarrow> GPTRequest" where
  "date_request article = \<lparr>gpt_Content = Date article, gpt_Prompt = date_prompt\<rparr>"

definition example_prompts :: prompts where
  "example_prompts =
     \<lparr>PROMPT_CONTENT_1 = ''strip ads'', PROMPT_CONTENT_2 = ''strip tags'',
      PROMPT_CONTENT_3 = ''summarise''\<rparr>"

definition example_article :: NewsArticle where
  "example_article = \<lparr>Title = ''T'', Content = ''raw text'', Date = ''2025-01-04 15:25''\<rparr>"

text \<open>A cleaning service that answers by the instruction it is given, and one that is down.\<close>

definition echo_server :: gpt_server where
  "echo_server =
     \<lparr>gpt_NewRequest = None,
      gpt_Do = (\<lambda>r. Inr \<lparr>res_StatusCode = 200,
                           res_Body = Inr (''['' @ gpt_Prompt r @ '']'' @ gpt_Content r)\<rparr>)\<rparr>"

definition down_server :: gpt_server where
  "down_server =
     \<lparr>gpt_NewRequest = None,
      gpt_Do = (\<lambda>r. Inr \<lparr>res_StatusCode = 503, res_Body = Inr ''unavailable''\<rparr>)\<rparr>"

text \<open>
  A day as \<open>time.Now().Format("2006-01-02")\<close> prints it: ten characters, digits
  with a dash after the year and after the month. A file name: one path element that
  \<open>path.Clean\<close> leaves alone.
\<close>

definition is_digit :: "char \<Rightarrow> bool" where
  "is_digit c = (c \<in> set ''0123456789'')"

definition date_shaped :: "string \<Rightarrow> bool" where
  "date_shaped day =
     (length day = 10 \<and> day ! 4 = CHR ''-'' \<and> day ! 7 = CHR ''-''
      \<and> list_all (\<lambda>c. is_digit c \<or> c = CHR ''-'') day)"

definition file_name :: "string \<Rightarrow> bool" where
  "file_name name = (name \<noteq> [] \<and> CHR ''/'' \<notin> set name \<and> name \<noteq> ''.'' \<and> name \<noteq> ''..'')"

text \<open>
  \<open>blob\<close> is the tree entry the publisher builds for a file; \<open>env_ok\<close> says that
  the publisher's environment is in place.
\<close>

definition blob :: "string \<Rightarrow> string \<Rightarrow> TreeEntry" where
  "blob path content =
     \<lparr>entry_Path = path, entry_Type = ''blob'', entry_Content = content,
      entry_Mode = ''100644''\<rparr>"

definition env_ok :: "publisher_env \<Rightarrow> bool" where
  "env_ok env =
     (AWS_REGION env \<noteq> [] \<and> S3_BUCKET_NAME env \<noteq> [] \<and> TOKEN_GITHUB env \<noteq> []
      \<and> OWNER_GITHUB env \<noteq> [] \<and> REPO_GITHUB env \<noteq> [] \<and> LoadDefaultConfig env = None)"

text \<open>
  A bucket that lists two files for the day on two pages and fails to deliver the
  first of them.
\<close>

definition example_keys :: "string list" where
  "example_keys =
     [''news/2025-01-04/2025-01-04_it_0.md'', ''news/2025-01-04/2025-01-04_it_1.md'']"

definition example_bucket :: s3_bucket where
  "example_bucket =
     \<lparr>ListObjectsV2 =
        (\<lambda>prefix. if prefix = ''news/2025-01-04/''
                  then Page [''news/2025-01-04/2025-01-04_it_0.md'']
                         (LastPage [''news/2025-01-04/2025-01-04_it_1.md''])
                  else LastPage []),
      GetObject =
        (\<lambda>key. if key = ''news/2025-01-04/2025-01-04_it_1.md''
               then Inr (Inr ''# one'') else Inl ''SlowDown'')\<rparr>"

text \<open>
  A bucket that lists three files for the day: the first cannot be downloaded, and the
  other two differ only by a doubled slash after the prefix. Each delivered file holds
  its own key as content.
\<close>

definition colliding_keys :: "string list" where
  "colliding_keys =
     [''news/2025-01-04/2025-01-04_it_0.md'', ''news/2025-01-04/2025-01-04_it_1.md'',
      ''news/2025-01-04//2025-01-04_it_1.md'']"

definition colliding_bucket :: s3_bucket where
  "colliding_bucket =
     \<lparr>ListObjectsV2 =
        (\<lambda>prefix. if prefix = ''news/2025-01-04/'' then LastPage colliding_keys
                  else LastPage []),
      GetObject =
        (\<lambda>key. if key = ''news/2025-01-04/2025-01-04_it_0.md'' then Inl ''SlowDown''
               else Inr (Inr key))\<rparr>"

text \<open>
  Requests of the orchestrator by kind: an upload to the object store carries the
  category header, a conversion request the JSON content type. Then an environment in
  which the extraction of every source but \<open>urlA\<close> answers 500 and the conversion of
  the second article times out.
\<close>

definition is_s3_upload :: "http_request \<Rightarrow> bool" where
  "is_s3_upload r = (map fst (req_Header r) = [''x-category-sniij''])"

definition is_conversion :: "http_request \<Rightarrow> bool" where
  "is_conversion r = (req_Header r = [(''Content-Type'', ''application/json'')])"

definition article_one :: NewsArticle where
  "article_one = \<lparr>Title = ''one'', Content = ''first'', Date = ''2025-01-04''\<rparr>"

definition article_two :: NewsArticle where
  "article_two = \<lparr>Title = ''two'', Content = ''second'', Date = ''2025-01-04''\<rparr>"

definition example_autopush_env :: autopush_env where
  "example_autopush_env =
     \<lparr>CRAWLING_SERVER = Inr ''https://crawl'',
      CONVERT_SERVER = Inr ''https://convert'',
      UPLOAD_TO_S3_SEVER = Inr ''https://store'',
      UPLOAD_TO_GITHUB_SERVER = Inr ''https://publish'',
      http_NewRequest = (\<lambda>method url. None),
      http_Do =
        (\<lambda>r. if req_URL r = ''https://crawl''
              then (if req_Query r = [(''url'', ''urlA'')]
                    then Inr \<lparr>res_StatusCode = 200, res_Body = Inr ''articles''\<rparr>
                    else Inr \<lparr>res_StatusCode = 500, res_Body = Inr ''''\<rparr>)
              else if req_URL r = ''https://convert'' \<and> req_Body r = ''two''
              then Inl ''timeout''
              else Inr \<lparr>res_StatusCode = 200, res_Body = Inr ''# markdown''\<rparr>),
      Marshal_article = Title,
      Unmarshal_articles = (\<lambda>body. Inr [article_one, article_two]),
      Unmarshal_S3Response = (\<lambda>body. Inr \<lparr>Message = ''ok'', Filename = ''f''\<rparr>)\<rparr>"

text \<open>
  The link the extraction service checks for an \<open>href\<close>: a relative path is put
  behind \<open>BASE_URL\<close>.
\<close>

definition resolve :: "string \<Rightarrow> string \<Rightarrow> string" where
  "resolve BASE_URL href =
     (case href of [] \<Rightarrow> [] | c # rest \<Rightarrow> if c = CHR ''/'' then BASE_URL @ href else href)"

section \<open>Properties\<close>

subsection \<open>The batch commit\<close>

lemma UploadFiles_keeps_calls:
  "calls (snd (UploadFiles u files msg)) = calls u @ new_calls u (snd (UploadFiles u files msg))"
  by (simp add: UploadFiles_def new_calls_def called_def Let_def
      split: option.splits sum.splits)

text \<open>
  Claim C1. In \<open>UploadFiles\<close> the reference update comes last. If the run performs an
  \<open>UpdateRef\<close> call, then reading the head reference, reading the base tree, creating
  the tree and creating the commit have all succeeded, the update is to the commit just
  created, and the run's calls are exactly these five in this order. If one of the four
  earlier steps fails, the function returns an error, performs no \<open>UpdateRef\<close> call and
  leaves the branch head where it was.
\<close>

theorem UploadFiles_ref_update_last:
  "(\<forall>c. UpdateRef c \<in> set (new_calls u (snd (UploadFiles u files msg))) \<longrightarrow>
      GetRef_err u = None \<and>
      (\<exists>baseTree newTree.
         GetTree_res u (main_ref u) = Inr baseTree \<and>
         CreateTree_res u baseTree (tree_entries files) = Inr newTree \<and>
         CreateCommit_res u msg newTree (main_ref u) = Inr c \<and>
         new_calls u (snd (UploadFiles u files msg)) =
           [GetRef, GetTree (main_ref u), CreateTree baseTree (tree_entries files),
            CreateCommit msg newTree (main_ref u), UpdateRef c]))
   \<and>
   ((\<exists>e. GetRef_err u = Some e) \<or>
    (\<exists>e. GetTree_res u (main_ref u) = Inl e) \<or>
    (\<exists>baseTree e. GetTree_res u (main_ref u) = Inr baseTree \<and>
       CreateTree_res u baseTree (tree_entries files) = Inl e) \<or>
    (\<exists>baseTree newTree e. GetTree_res u (main_ref u) = Inr baseTree \<and>
       CreateTree_res u baseTree (tree_entries files) = Inr newTree \<and>
       CreateCommit_res u msg newTree (main_ref u) = Inl e)
    \<longrightarrow>
      fst (UploadFiles u files msg) \<noteq> None \<and>
      (\<forall>c. UpdateRef c \<notin> set (new_calls u (snd (UploadFiles u files msg)))) \<and>
      main_ref (snd (UploadFiles u files msg)) = main_ref u)"
  by (auto simp: UploadFiles_def new_calls_def called_def Let_def
      split: option.splits sum.splits)

theorem UploadFiles_ref_update_last_witness:
  "fst (UploadFiles failing_github [(''2025-01-04/a.md'', ''text'')] ''Add'') \<noteq> None \<and>
   main_ref (snd (UploadFiles failing_github [(''2025-01-04/a.md'', ''text'')] ''Add'')) = ''c0'' \<and>
   UpdateRef ''c1'' \<in> set (new_calls example_github
       (snd (UploadFiles example_github [(''2025-01-04/a.md'', ''text'')] ''Add''))) \<and>
   GetRef_err example_github = None"
proof -
  let ?files = "[(''2025-01-04/a.md'', ''text'')]"
  have fails: "\<exists>baseTree newTree e.
      GetTree_res failing_github (main_ref failing_github) = Inr baseTree \<and>
      CreateTree_res failing_github baseTree (tree_entries ?files) = Inr newTree \<and>
      CreateCommit_res failing_github ''Add'' newTree (main_ref failing_github) = Inl e"
    by (simp add: failing_github_def example_github_def)
  have head: "main_ref failing_github = ''c0''"
    by (simp add: failing_github_def example_github_def)
  have updated: "UpdateRef ''c1'' \<in> set (new_calls example_github
       (snd (UploadFiles example_github ?files ''Add'')))"
    by (simp add: UploadFiles_def new_calls_def called_def example_github_def Let_def)
  from UploadFiles_ref_update_last [of failing_github ?files "''Add''"] fails head
  have "fst (UploadFiles failing_github ?files ''Add'') \<noteq> None \<and>
        main_ref (snd (UploadFiles failing_github ?files ''Add'')) = ''c0''"
    by metis
  moreover from UploadFiles_ref_update_last [of example_github ?files "''Add''"] updated
  have "GetRef_err example_github = None"
    by blast
  ultimately show ?thesis using updated by simp
qed

subsection \<open>The listing\<close>

lemma ListFiles_pages_acc:
  "ListFiles_pages l acc =
     (case page_failure l of
        Some err \<Rightarrow> Inl (''failed to list files: '' @ err)
      | None \<Rightarrow> Inr (acc @ all_keys l))"
  by (induction l arbitrary: acc) (simp_all split: option.splits)

text \<open>
  Claim C7. \<open>ListFiles\<close> returns the keys of every page of the listing under the given
  prefix, in order, when no page fetch fails, and the error of the failing fetch
  otherwise. (The listing type has no infinite run of pages, so the loop ends.)
\<close>

theorem ListFiles_exhausts_pages:
  "ListFiles d prefix =
     (case page_failure (ListObjectsV2 d prefix) of
        Some err \<Rightarrow> Inl (''failed to list files: '' @ err)
      | None \<Rightarrow> Inr (all_keys (ListObjectsV2 d prefix)))"
  by (simp add: ListFiles_def ListFiles_pages_acc split: option.splits)

subsection \<open>The publisher's handler\<close>

text \<open>
  Claim C6. With its environment in place, a publisher that lists no file under the
  day's prefix returns status 200 with no error and leaves the repository host as it
  was: no call reaches it, so no commit is created and no reference is updated.
\<close>

theorem Handler_github_empty_batch:
  assumes "AWS_REGION env \<noteq> []" "S3_BUCKET_NAME env \<noteq> []" "TOKEN_GITHUB env \<noteq> []"
    "OWNER_GITHUB env \<noteq> []" "REPO_GITHUB env \<noteq> []" "LoadDefaultConfig env = None"
    and "ListFiles d (''news/'' @ today env @ ''/'') = Inr []"
  shows "Handler_github env d u =
           (Return (\<lparr>StatusCode = 200,
                     Body = ''{\"message\": \"Files uploaded successfully in a single commit\"}'',
                     Headers = []\<rparr>, None), u)"
  using assms by (simp add: Handler_github_def)

theorem Handler_github_empty_batch_witness:
  "Handler_github example_env empty_bucket example_github =
     (Return (\<lparr>StatusCode = 200,
               Body = ''{\"message\": \"Files uploaded successfully in a single commit\"}'',
               Headers = []\<rparr>, None), example_github)"
proof -
  have "ListFiles empty_bucket (''news/'' @ today example_env @ ''/'') = Inr []"
    by (simp add: ListFiles_def empty_bucket_def)
  then show ?thesis
    by (intro Handler_github_empty_batch) (simp_all add: example_env_def)
qed

subsection \<open>The orchestrator\<close>

text \<open>
  Claim C5. The orchestrator's handler returns status 200 and no error in every
  environment: whatever the extraction, conversion, upload and publish calls answer.
\<close>

theorem Handler_autopush_always_succeeds:
  "fst (Handler_autopush env) = (\<lparr>StatusCode = 200, Body = [], Headers = []\<rparr>, None)"
  by (simp add: Handler_autopush_def Let_def)

subsection \<open>The content transformer\<close>

lemma ConvertToMarkdown_nonempty: "ConvertToMarkdown a \<noteq> []"
  by (simp add: ConvertToMarkdown_def)

lemma Handler_convert_parsed:
  assumes "Unmarshal body = Inr article"
  shows "Handler_convert srv p Unmarshal body =
     (\<lparr>StatusCode = 200,
       Body = ConvertToMarkdown
                (article\<lparr>Content := (case snd (content_goroutine srv p article) of
                                        None \<Rightarrow> Content article | Some c \<Rightarrow> c),
                         Date := (case snd (date_goroutine srv article) of
                                     None \<Rightarrow> Date article | Some d \<Rightarrow> d)\<rparr>),
       Headers = [(''Content-Type'', ''text/plain'')]\<rparr>,
      None,
      fst (content_goroutine srv p article) @ fst (date_goroutine srv article))"
  using assms
  by (simp add: Handler_convert_def Let_def ConvertToMarkdown_nonempty
      split: prod.splits option.splits)

lemma date_goroutine_result:
  "snd (date_goroutine srv article) =
     (case FetchGPT srv (date_request article) of Inl err \<Rightarrow> None | Inr d \<Rightarrow> Some d)"
  by (simp add: date_goroutine_def date_request_def Let_def split: sum.splits)

lemma content_goroutine_failure:
  assumes "\<exists>r \<in> set (content_requests p article). \<exists>e. FetchGPT srv r = Inl e"
  shows "snd (content_goroutine srv p article) = None"
  using assms
  by (auto simp: content_goroutine_def content_requests_def Let_def split: sum.splits)

lemma content_goroutine_success:
  assumes "map (FetchGPT srv) (content_requests p article) = [Inr c1, Inr c2, Inr c3]"
  shows "content_goroutine srv p article = (content_requests p article, Some c3)"
  using assms by (simp add: content_goroutine_def content_requests_def Let_def)

lemma content_goroutine_sent:
  "\<exists>n. fst (content_goroutine srv p article) = take (Suc n) (content_requests p article)"
proof (cases "FetchGPT srv (content_requests p article ! 0)")
  case (Inl e)
  then have "fst (content_goroutine srv p article) = take (Suc 0) (content_requests p article)"
    by (simp add: content_goroutine_def content_requests_def Let_def)
  then show ?thesis by blast
next
  case c1: (Inr c1)
  show ?thesis
  proof (cases "FetchGPT srv (content_requests p article ! 1)")
    case (Inl e)
    with c1 have "fst (content_goroutine srv p article)
        = take (Suc 1) (content_requests p article)"
      by (simp add: content_goroutine_def content_requests_def Let_def)
    then show ?thesis by blast
  next
    case c2: (Inr c2)
    with c1 have "fst (content_goroutine srv p article)
        = take (Suc 2) (content_requests p article)"
      by (simp add: content_goroutine_def content_requests_def Let_def split: sum.splits)
    then show ?thesis by blast
  qed
qed

text \<open>
  Claim C3. Every request the content goroutine passes to \<open>FetchGPT\<close> carries the
  article's original content: the requests sent are a non-empty initial part of the three
  content requests, none of which holds an earlier stage's output. When all three calls
  succeed, the goroutine assigns the third call's output, which is the content the
  handler renders, and the handler's first three requests are the three content requests.
\<close>

theorem content_stages_resend_original:
  "(\<forall>r \<in> set (fst (content_goroutine srv p article)). gpt_Content r = Content article)
   \<and> (\<exists>n. fst (content_goroutine srv p article) = take (Suc n) (content_requests p article))
   \<and> (\<forall>c1 c2 c3.
        map (FetchGPT srv) (content_requests p article) = [Inr c1, Inr c2, Inr c3] \<longrightarrow>
          content_goroutine srv p article = (content_requests p article, Some c3) \<and>
          (\<forall>Unmarshal body. Unmarshal body = Inr article \<longrightarrow>
             Body (fst (Handler_convert srv p Unmarshal body)) =
               ConvertToMarkdown
                 (article\<lparr>Content := c3,
                          Date := (case FetchGPT srv (date_request article) of
                                     Inl err \<Rightarrow> Date article
                                   | Inr d \<Rightarrow> d)\<rparr>) \<and>
             take 3 (snd (snd (Handler_convert srv p Unmarshal body))) =
               content_requests p article))"
proof (intro conjI allI impI)
  show "\<forall>r \<in> set (fst (content_goroutine srv p article)). gpt_Content r = Content article"
    by (auto simp: content_goroutine_def Let_def split: sum.splits)
next
  show "\<exists>n. fst (content_goroutine srv p article) = take (Suc n) (content_requests p article)"
    by (rule content_goroutine_sent)
next
  fix c1 c2 c3
  assume ok: "map (FetchGPT srv) (content_requests p article) = [Inr c1, Inr c2, Inr c3]"
  then show g: "content_goroutine srv p article = (content_requests p article, Some c3)"
    by (rule content_goroutine_success)
  fix Unmarshal :: "string \<Rightarrow> error + NewsArticle" and body
  assume parsed: "Unmarshal body = Inr article"
  show "Body (fst (Handler_convert srv p Unmarshal body)) =
          ConvertToMarkdown
            (article\<lparr>Content := c3,
                     Date := (case FetchGPT srv (date_request article) of
                                Inl err \<Rightarrow> Date article
                              | Inr d \<Rightarrow> d)\<rparr>)"
    by (simp add: Handler_convert_parsed [of Unmarshal body article, OF parsed] g date_goroutine_result split: sum.splits)
  show "take 3 (snd (snd (Handler_convert srv p Unmarshal body))) = content_requests p article"
    by (simp add: Handler_convert_parsed [of Unmarshal body article, OF parsed] g content_requests_def)
qed

text \<open>
  Claim C4. The transformer's handler never returns a Go error. For a body that parses
  to an article the status is 200 whatever the cleaning calls answer; if a content call
  fails the rendered content is the original one, if the date call fails the rendered
  date is the original one, and if both sub-pipelines fail the response is the Markdown
  of the article as parsed.
\<close>

theorem Handler_convert_tolerates_failures:
  "fst (snd (Handler_convert srv p Unmarshal body)) = None
   \<and> (Unmarshal body = Inr article \<longrightarrow>
        StatusCode (fst (Handler_convert srv p Unmarshal body)) = 200)
   \<and> (Unmarshal body = Inr article
        \<and> (\<exists>r \<in> set (content_requests p article). \<exists>e. FetchGPT srv r = Inl e) \<longrightarrow>
        Body (fst (Handler_convert srv p Unmarshal body)) =
          ConvertToMarkdown
            (article\<lparr>Date := (case FetchGPT srv (date_request article) of
                                Inl err \<Rightarrow> Date article
                              | Inr d \<Rightarrow> d)\<rparr>))
   \<and> (Unmarshal body = Inr article
        \<and> (\<exists>e. FetchGPT srv (date_request article) = Inl e) \<longrightarrow>
        (\<exists>c. Body (fst (Handler_convert srv p Unmarshal body)) =
               ConvertToMarkdown (article\<lparr>Content := c\<rparr>)))
   \<and> (Unmarshal body = Inr article
        \<and> (\<exists>r \<in> set (content_requests p article). \<exists>e. FetchGPT srv r = Inl e)
        \<and> (\<exists>e. FetchGPT srv (date_request article) = Inl e) \<longrightarrow>
        fst (Handler_convert srv p Unmarshal body) =
          \<lparr>StatusCode = 200, Body = ConvertToMarkdown article,
           Headers = [(''Content-Type'', ''text/plain'')]\<rparr>)"
proof (intro conjI impI)
  show "fst (snd (Handler_convert srv p Unmarshal body)) = None"
    by (simp add: Handler_convert_def Let_def split: sum.splits prod.splits)
next
  assume parsed: "Unmarshal body = Inr article"
  show "StatusCode (fst (Handler_convert srv p Unmarshal body)) = 200"
    by (simp add: Handler_convert_parsed [of Unmarshal body article, OF parsed])
next
  assume a: "Unmarshal body = Inr article
        \<and> (\<exists>r \<in> set (content_requests p article). \<exists>e. FetchGPT srv r = Inl e)"
  then have parsed: "Unmarshal body = Inr article"
    and c: "snd (content_goroutine srv p article) = None"
    by (simp_all add: content_goroutine_failure)
  show "Body (fst (Handler_convert srv p Unmarshal body)) =
          ConvertToMarkdown
            (article\<lparr>Date := (case FetchGPT srv (date_request article) of
                                Inl err \<Rightarrow> Date article
                              | Inr d \<Rightarrow> d)\<rparr>)"
    by (simp add: Handler_convert_parsed [of Unmarshal body article, OF parsed] c date_goroutine_result split: sum.splits)
next
  assume a: "Unmarshal body = Inr article \<and> (\<exists>e. FetchGPT srv (date_request article) = Inl e)"
  then have parsed: "Unmarshal body = Inr article" by simp
  from a have d: "snd (date_goroutine srv article) = None"
    by (auto simp: date_goroutine_result)
  have "Body (fst (Handler_convert srv p Unmarshal body)) =
          ConvertToMarkdown
            (article\<lparr>Content := (case snd (content_goroutine srv p article) of
                                    None \<Rightarrow> Content article | Some c \<Rightarrow> c)\<rparr>)"
    by (simp add: Handler_convert_parsed [of Unmarshal body article, OF parsed] d)
  then show "\<exists>c. Body (fst (Handler_convert srv p Unmarshal body)) =
               ConvertToMarkdown (article\<lparr>Content := c\<rparr>)"
    by blast
next
  assume a: "Unmarshal body = Inr article
        \<and> (\<exists>r \<in> set (content_requests p article). \<exists>e. FetchGPT srv r = Inl e)
        \<and> (\<exists>e. FetchGPT srv (date_request article) = Inl e)"
  then have parsed: "Unmarshal body = Inr article"
    and c: "snd (content_goroutine srv p article) = None"
    by (simp_all add: content_goroutine_failure)
  from a have d: "snd (date_goroutine srv article) = None"
    by (auto simp: date_goroutine_result)
  show "fst (Handler_convert srv p Unmarshal body) =
          \<lparr>StatusCode = 200, Body = ConvertToMarkdown article,
           Headers = [(''Content-Type'', ''text/plain'')]\<rparr>"
    by (simp add: Handler_convert_parsed [of Unmarshal body article, OF parsed] c d)
qed

theorem content_stages_resend_original_witness:
  "content_goroutine echo_server example_prompts example_article =
     (content_requests example_prompts example_article, Some ''[summarise]raw text'') \<and>
   take 3 (snd (snd (Handler_convert echo_server example_prompts
                      (\<lambda>b. Inr example_article) ''{}''))) =
     [\<lparr>gpt_Content = ''raw text'', gpt_Prompt = ''strip ads''\<rparr>,
      \<lparr>gpt_Content = ''raw text'', gpt_Prompt = ''strip tags''\<rparr>,
      \<lparr>gpt_Content = ''raw text'', gpt_Prompt = ''summarise''\<rparr>]"
proof -
  have answers: "map (FetchGPT echo_server) (content_requests example_prompts example_article) =
      [Inr ''[strip ads]raw text'', Inr ''[strip tags]raw text'', Inr ''[summarise]raw text'']"
    by (simp add: FetchGPT_def echo_server_def content_requests_def example_prompts_def
        example_article_def)
  have reqs: "content_requests example_prompts example_article =
     [\<lparr>gpt_Content = ''raw text'', gpt_Prompt = ''strip ads''\<rparr>,
      \<lparr>gpt_Content = ''raw text'', gpt_Prompt = ''strip tags''\<rparr>,
      \<lparr>gpt_Content = ''raw text'', gpt_Prompt = ''summarise''\<rparr>]"
    by (simp add: content_requests_def example_prompts_def example_article_def)
  note all = content_stages_resend_original [of echo_server example_prompts example_article]
  note third = all [THEN conjunct2, THEN conjunct2, rule_format, OF answers]
  have parsed: "(\<lambda>b::string. (Inr example_article :: error + NewsArticle)) ''{}''
      = Inr example_article"
    by simp
  note handler = third [THEN conjunct2, rule_format, OF parsed, THEN conjunct2]
  from third [THEN conjunct1] handler reqs show ?thesis by simp
qed

theorem Handler_convert_tolerates_failures_witness:
  "fst (Handler_convert down_server example_prompts (\<lambda>b. Inr example_article) ''{}'') =
     \<lparr>StatusCode = 200, Body = ConvertToMarkdown example_article,
      Headers = [(''Content-Type'', ''text/plain'')]\<rparr> \<and>
   fst (snd (Handler_convert down_server example_prompts (\<lambda>b. Inr example_article) ''{}''))
     = None"
proof -
  have c: "\<exists>r \<in> set (content_requests example_prompts example_article).
             \<exists>e. FetchGPT down_server r = Inl e"
    by (auto simp: FetchGPT_def down_server_def content_requests_def)
  have d: "\<exists>e. FetchGPT down_server (date_request example_article) = Inl e"
    by (simp add: FetchGPT_def down_server_def)
  have p: "(\<lambda>b::string. (Inr example_article :: error + NewsArticle)) ''{}'' = Inr example_article"
    by simp
  note all = Handler_convert_tolerates_failures
         [of down_server example_prompts "\<lambda>b. Inr example_article" "''{}''" example_article]
  from all have none: "fst (snd (Handler_convert down_server example_prompts
      (\<lambda>b. Inr example_article) ''{}'')) = None"
    by (rule conjunct1)
  from p c d have "(\<lambda>b::string. (Inr example_article :: error + NewsArticle)) ''{}''
        = Inr example_article
      \<and> (\<exists>r \<in> set (content_requests example_prompts example_article).
             \<exists>e. FetchGPT down_server r = Inl e)
      \<and> (\<exists>e. FetchGPT down_server (date_request example_article) = Inl e)"
    by (intro conjI)
  note all [THEN conjunct2, THEN conjunct2, THEN conjunct2, THEN conjunct2, rule_format, OF this]
  with none show ?thesis by simp
qed

subsection \<open>Repository paths\<close>

lemma HasPrefix_append: "HasPrefix (p @ s) p"
  by (simp add: HasPrefix_def)

lemma TrimPrefix_append: "TrimPrefix (p @ s) p = s"
  by (simp add: TrimPrefix_def HasPrefix_append)

lemma split_slash_nonempty: "split_slash s \<noteq> []"
  by (induction s) (auto split: list.splits)

lemma split_slash_plain: "CHR ''/'' \<notin> set a \<Longrightarrow> split_slash a = [a]"
  by (induction a) auto

lemma split_slash_append:
  "CHR ''/'' \<notin> set a \<Longrightarrow> split_slash (a @ CHR ''/'' # b) = a # split_slash b"
  by (induction a) auto

lemma Clean_two_names:
  assumes "file_name a" and "file_name b"
  shows "Clean (a @ ''/'' @ b) = a @ ''/'' @ b"
proof -
  from assms have split: "split_slash (a @ ''/'' @ b) = [a, b]"
    by (simp add: file_name_def split_slash_append split_slash_plain)
  from assms have unrooted: "hd (a @ ''/'' @ b) \<noteq> CHR ''/''"
    by (cases a) (auto simp: file_name_def)
  from assms have steps: "foldl (clean_step False) [] [a, b] = [a, b]"
    by (simp add: clean_step_def file_name_def)
  from split unrooted steps show ?thesis
    by (simp add: Clean_def Let_def)
qed

lemma Join_two_names:
  assumes "file_name a" and "file_name b"
  shows "Join [a, b] = a @ ''/'' @ b"
  using assms Clean_two_names [OF assms] by (simp add: Join_def file_name_def)

lemma githubFilePath_under_prefix:
  assumes "file_name day" and "file_name name"
  shows "githubFilePath day prefix (prefix @ name) = day @ ''/'' @ name"
  using Join_two_names [OF assms] by (simp add: githubFilePath_def TrimPrefix_append)

lemma digit_char_not_slash: "d < 10 \<Longrightarrow> digit_char d \<noteq> CHR ''/''"
proof
  assume "d < 10" and "digit_char d = CHR ''/''"
  then have "of_char (char_of (48 + d) :: char) = (of_char (CHR ''/'') :: nat)"
    by (simp add: digit_char_def)
  with \<open>d < 10\<close> show False by simp
qed

lemma Itoa_no_slash: "CHR ''/'' \<notin> set (Itoa n)"
proof (induction n rule: Itoa.induct)
  case (1 n)
  show ?case
  proof (cases "n < 10")
    case True
    then show ?thesis
      using digit_char_not_slash [of n] by (subst Itoa.simps) auto
  next
    case False
    then have "CHR ''/'' \<notin> set (Itoa (n div 10))" by (rule "1.IH")
    moreover have "digit_char (n mod 10) \<noteq> CHR ''/''"
      by (rule digit_char_not_slash) simp
    ultimately show ?thesis
      using False by (subst Itoa.simps) auto
  qed
qed

lemma date_shaped_file_name: "date_shaped day \<Longrightarrow> file_name day"
proof -
  assume d: "date_shaped day"
  then have len: "length day = 10" by (simp add: date_shaped_def)
  from d have "\<forall>c \<in> set day. is_digit c \<or> c = CHR ''-''"
    by (simp add: date_shaped_def list_all_iff)
  then have "CHR ''/'' \<notin> set day"
    by (auto simp: is_digit_def)
  with len show ?thesis
    by (auto simp: file_name_def)
qed

lemma md_file_name:
  assumes "CHR ''/'' \<notin> set stem"
  shows "file_name (stem @ ''.md'')"
proof -
  have "last (stem @ ''.md'') = CHR ''d''" by simp
  then have "stem @ ''.md'' \<noteq> ''.''" and "stem @ ''.md'' \<noteq> ''..''"
    by auto
  with assms show ?thesis by (simp add: file_name_def)
qed

text \<open>
  Claim C8, as amended. The object stored for a category and an index on a day has the
  key \<open>news/{day}/{day}_{category}_{index}.md\<close>; for a category without a slash the
  publisher maps it to the repository path \<open>{day}/{day}_{category}_{index}.md\<close>: the
  prefix is stripped, the file name is re-rooted under the day's folder, and the index
  stays in the name.
\<close>

theorem githubFilePath_keeps_index:
  assumes "date_shaped day" and "CHR ''/'' \<notin> set category"
  shows "githubFilePath day (''news/'' @ day @ ''/'')
           (LambdaHandler_filename day day (category @ ''_'' @ Itoa i)) =
         day @ ''/'' @ day @ ''_'' @ category @ ''_'' @ Itoa i @ ''.md''"
proof -
  from assms(1) have day: "file_name day" by (rule date_shaped_file_name)
  then have "CHR ''/'' \<notin> set day" by (simp add: file_name_def)
  with assms(2) have "CHR ''/'' \<notin> set (day @ ''_'' @ category @ ''_'' @ Itoa i)"
    by (simp add: Itoa_no_slash)
  then have name: "file_name ((day @ ''_'' @ category @ ''_'' @ Itoa i) @ ''.md'')"
    by (rule md_file_name)
  have "LambdaHandler_filename day day (category @ ''_'' @ Itoa i) =
          (''news/'' @ day @ ''/'') @ ((day @ ''_'' @ category @ ''_'' @ Itoa i) @ ''.md'')"
    by (simp add: LambdaHandler_filename_def)
  then show ?thesis
    using githubFilePath_under_prefix [OF day name, of "''news/'' @ day @ ''/''"] by simp
qed



theorem githubFilePath_keeps_index_witness:
  "githubFilePath ''2025-01-04'' ''news/2025-01-04/''
     ''news/2025-01-04/2025-01-04_politics_12.md'' = ''2025-01-04/2025-01-04_politics_12.md''"
proof -
  have d: "date_shaped ''2025-01-04''"
    by (simp add: date_shaped_def is_digit_def)
  have c: "CHR ''/'' \<notin> set ''politics''" by simp
  have i: "Itoa 12 = ''12''" by code_simp
  from githubFilePath_keeps_index [OF d c, of 12] show ?thesis
    by (simp add: LambdaHandler_filename_def i)
qed

text \<open>
  Claim C8 as stated fails: the key of the first article of category \<open>it\<close> is not
  mapped to \<open>{day}/{day}_it.md\<close>.
\<close>

theorem repository_path_without_index_counterexample:
  "githubFilePath ''2025-01-04'' ''news/2025-01-04/''
      (LambdaHandler_filename ''2025-01-04'' ''2025-01-04'' (''it'' @ ''_'' @ Itoa 0))
     \<noteq> ''2025-01-04/2025-01-04_it.md''"
  by code_simp

subsection \<open>The publish batch and the tree entries\<close>

lemma download_loop_paths:
  "fst ` set (download_loop d day prefix keys acc) =
     fst ` set acc \<union> githubFilePath day prefix ` {k \<in> set keys. \<not> isl (DownloadFile d k)}"
proof (induction keys arbitrary: acc)
  case Nil
  show ?case by simp
next
  case (Cons k ks)
  show ?case
  proof (cases "DownloadFile d k")
    case (Inl e)
    with Cons.IH [of acc] show ?thesis by auto
  next
    case (Inr c)
    with Cons.IH [of "AList.update (githubFilePath day prefix k) c acc"] show ?thesis
      by (auto simp: dom_update)
  qed
qed

lemma download_loop_distinct:
  "distinct (map fst acc) \<Longrightarrow> distinct (map fst (download_loop d day prefix keys acc))"
proof (induction keys arbitrary: acc)
  case Nil
  then show ?case by simp
next
  case (Cons k ks)
  then show ?case
    by (cases "DownloadFile d k") (simp_all add: distinct_update)
qed

lemma entry_Path_tree_entries: "map entry_Path (tree_entries files) = map fst files"
  by (simp add: tree_entries_def case_prod_beta comp_def)

text \<open>
  The repository path is one-to-one on keys of the layout the object store writer
  produces: the prefix followed by a single path element.
\<close>

lemma githubFilePath_inj:
  assumes day: "file_name day"
    and keys: "\<forall>k \<in> set keys. \<exists>name. file_name name \<and> k = prefix @ name"
  shows "inj_on (githubFilePath day prefix) (set keys)"
proof (rule inj_onI)
  fix x y
  assume x: "x \<in> set keys" and y: "y \<in> set keys"
    and eq: "githubFilePath day prefix x = githubFilePath day prefix y"
  from keys x obtain nx where nx: "file_name nx" "x = prefix @ nx" by blast
  from keys y obtain ny where ny: "file_name ny" "y = prefix @ ny" by blast
  from eq nx ny have "day @ ''/'' @ nx = day @ ''/'' @ ny"
    by (simp add: githubFilePath_under_prefix [OF day])
  with nx ny show "x = y" by simp
qed

lemma Handler_github_uploads:
  assumes "env_ok env" and "ListFiles d (''news/'' @ today env @ ''/'') = Inr keys"
    and "download_loop d (today env) (''news/'' @ today env @ ''/'') keys [] \<noteq> []"
  shows "snd (Handler_github env d u) =
           snd (UploadFiles u (download_loop d (today env) (''news/'' @ today env @ ''/'') keys [])
                  (''Add: '' @ commit_label @ ''('' @ today env @ '')''))"
  using assms
  by (simp add: Handler_github_def env_ok_def Let_def split: prod.splits option.splits)

lemma UploadFiles_creates_tree:
  assumes "GetRef_err u = None" and "GetTree_res u (main_ref u) = Inr baseTree"
  shows "CreateTree baseTree (tree_entries files) \<in> set (new_calls u (snd (UploadFiles u files msg)))"
  using assms
  by (simp add: UploadFiles_def new_calls_def called_def Let_def split: sum.splits option.splits)

lemma Handler_github_creates_tree:
  assumes "env_ok env" and "ListFiles d prefix = Inr keys"
    and "prefix = ''news/'' @ today env @ ''/''"
    and "tree_entries (download_loop d (today env) prefix keys []) \<noteq> []"
    and "GetRef_err u = None" and "GetTree_res u (main_ref u) = Inr baseTree"
  shows "CreateTree baseTree (tree_entries (download_loop d (today env) prefix keys []))
           \<in> set (new_calls u (snd (Handler_github env d u)))"
proof -
  from assms(4) have ne: "download_loop d (today env) prefix keys [] \<noteq> []"
    by (auto simp: tree_entries_def)
  from assms(1,2) ne have "snd (Handler_github env d u) =
      snd (UploadFiles u (download_loop d (today env) prefix keys [])
             (''Add: '' @ commit_label @ ''('' @ today env @ '')''))"
    unfolding assms(3) by (rule Handler_github_uploads)
  with assms(5,6) show ?thesis
    by (simp add: UploadFiles_creates_tree)
qed

text \<open>
  Claim C2, as amended. When no two listed keys are mapped to the same repository path
  (as for keys \<open>news/{day}/{name}\<close> whose names are single path elements, by
  \<open>githubFilePath_inj\<close>), the tree entries built from the batch are in bijection with
  the listed keys whose download succeeds: the repository path is a one-to-one map from
  these keys onto the entries' paths, no two entries share a path, and a listed key
  whose download fails has no entry. When the batch is not empty and the host delivers
  the head reference and its tree, these entries are the ones the handler passes to
  \<open>CreateTree\<close>.
\<close>

theorem batch_entries_bijection:
  assumes inj: "inj_on (githubFilePath (today env) (''news/'' @ today env @ ''/'')) (set keys)"
  shows
   "(let prefix = ''news/'' @ today env @ ''/'';
         entries = tree_entries (download_loop d (today env) prefix keys [])
     in bij_betw (githubFilePath (today env) prefix)
          {k \<in> set keys. \<not> isl (DownloadFile d k)} (entry_Path ` set entries)
        \<and> distinct (map entry_Path entries)
        \<and> (\<forall>k \<in> set keys. isl (DownloadFile d k) \<longrightarrow>
              githubFilePath (today env) prefix k \<notin> entry_Path ` set entries)
        \<and> (env_ok env \<and> ListFiles d prefix = Inr keys \<and> entries \<noteq> []
            \<and> GetRef_err u = None \<and> GetTree_res u (main_ref u) = Inr baseTree \<longrightarrow>
              CreateTree baseTree entries \<in> set (new_calls u (snd (Handler_github env d u)))))"
proof -
  define prefix where "prefix = ''news/'' @ today env @ ''/''"
  define entries where "entries = tree_entries (download_loop d (today env) prefix keys [])"
  let ?path = "githubFilePath (today env) prefix"
  let ?ok = "\<lambda>k. \<not> isl (DownloadFile d k)"
  from inj have inj': "inj_on ?path (set keys)" by (simp add: prefix_def)
  have "entry_Path ` set entries = set (map entry_Path entries)" by simp
  also have "\<dots> = fst ` set (download_loop d (today env) prefix keys [])"
    by (simp only: entries_def entry_Path_tree_entries set_map)
  also have "\<dots> = ?path ` {k \<in> set keys. ?ok k}"
    by (simp add: download_loop_paths)
  finally have img: "entry_Path ` set entries = ?path ` {k \<in> set keys. ?ok k}" .
  have "inj_on ?path {k \<in> set keys. ?ok k}"
    by (rule inj_on_subset [OF inj']) auto
  then have c1: "bij_betw ?path {k \<in> set keys. ?ok k} (entry_Path ` set entries)"
    by (simp add: bij_betw_def img)
  have c2: "distinct (map entry_Path entries)"
    unfolding entries_def entry_Path_tree_entries by (rule download_loop_distinct) simp
  have c3: "\<forall>k \<in> set keys. isl (DownloadFile d k) \<longrightarrow> ?path k \<notin> entry_Path ` set entries"
  proof (intro ballI impI)
    fix k assume k: "k \<in> set keys" and f: "isl (DownloadFile d k)"
    show "?path k \<notin> entry_Path ` set entries"
    proof
      assume "?path k \<in> entry_Path ` set entries"
      then obtain k' where k': "k' \<in> set keys" "?ok k'" "?path k = ?path k'"
        unfolding img by blast
      with inj' k have "k = k'" by (auto dest: inj_onD)
      with f k' show False by simp
    qed
  qed
  have c4: "env_ok env \<and> ListFiles d prefix = Inr keys \<and> entries \<noteq> []
            \<and> GetRef_err u = None \<and> GetTree_res u (main_ref u) = Inr baseTree \<longrightarrow>
              CreateTree baseTree entries \<in> set (new_calls u (snd (Handler_github env d u)))"
    unfolding entries_def
    using Handler_github_creates_tree [of env d prefix keys u baseTree] prefix_def by blast
  from c1 c2 c3 c4 show ?thesis
    unfolding Let_def prefix_def [symmetric] entries_def [symmetric] by (intro conjI)
qed

lemma example_listing: "ListFiles example_bucket ''news/2025-01-04/'' = Inr example_keys"
  by (simp add: ListFiles_def example_bucket_def example_keys_def)

lemma example_entries:
  "tree_entries (download_loop example_bucket ''2025-01-04'' ''news/2025-01-04/'' example_keys [])
     = [blob ''2025-01-04/2025-01-04_it_1.md'' ''# one'']"
  by code_simp

theorem batch_entries_bijection_witness:
  "bij_betw (githubFilePath ''2025-01-04'' ''news/2025-01-04/'')
     {k \<in> set example_keys. \<not> isl (DownloadFile example_bucket k)}
     (entry_Path ` set (tree_entries
        (download_loop example_bucket ''2025-01-04'' ''news/2025-01-04/'' example_keys [])))
   \<and> CreateTree ''t0'' [blob ''2025-01-04/2025-01-04_it_1.md'' ''# one'']
        \<in> set (new_calls example_github
                  (snd (Handler_github example_env example_bucket example_github)))"
proof -
  have today: "''news/'' @ today example_env @ ''/'' = ''news/2025-01-04/''"
    "today example_env = ''2025-01-04''"
    by (simp_all add: example_env_def)
  have lit: "''news/'' @ ''2025-01-04'' @ ''/'' = ''news/2025-01-04/''"
    by simp
  have day: "file_name ''2025-01-04''"
    by (simp add: file_name_def)
  have "file_name ''2025-01-04_it_0.md''" and "file_name ''2025-01-04_it_1.md''"
    by (simp_all add: file_name_def)
  then have names: "\<forall>k \<in> set example_keys. \<exists>name. file_name name
      \<and> k = ''news/2025-01-04/'' @ name"
    by (simp add: example_keys_def)
  have inj: "inj_on (githubFilePath (today example_env) (''news/'' @ today example_env @ ''/''))
      (set example_keys)"
    unfolding today lit using day names by (rule githubFilePath_inj)
  note all = batch_entries_bijection
    [OF inj, of example_bucket example_github "''t0''", unfolded Let_def]
  have pre: "env_ok example_env
      \<and> ListFiles example_bucket (''news/'' @ today example_env @ ''/'') = Inr example_keys
      \<and> tree_entries (download_loop example_bucket (today example_env)
            (''news/'' @ today example_env @ ''/'') example_keys []) \<noteq> []
      \<and> GetRef_err example_github = None
      \<and> GetTree_res example_github (main_ref example_github) = Inr ''t0''"
    unfolding today lit
    by (simp add: example_listing example_entries) (simp add: env_ok_def example_env_def example_github_def)
  from all [THEN conjunct1]
       all [THEN conjunct2, THEN conjunct2, THEN conjunct2, rule_format, OF pre]
  show ?thesis
    unfolding today lit by (simp only: example_entries)
qed

lemma colliding_listing: "ListFiles colliding_bucket ''news/2025-01-04/'' = Inr colliding_keys"
  by (simp add: ListFiles_def colliding_bucket_def)

lemma colliding_entries:
  "map entry_Path (tree_entries
     (download_loop colliding_bucket ''2025-01-04'' ''news/2025-01-04/'' colliding_keys []))
     = [''2025-01-04/2025-01-04_it_1.md'']"
  by code_simp

text \<open>
  Claim C2 as stated fails, in two ways on one listing. The first key's download fails,
  so the key has no entry: the entries are not in bijection with the listed keys. The
  two other keys are mapped to the same path, so one entry stands for both: the entries
  are not in bijection with the downloaded keys either.
\<close>

theorem listed_keys_not_in_bijection_counterexample:
  "ListFiles colliding_bucket ''news/2025-01-04/'' = Inr colliding_keys
   \<and> \<not> bij_betw (githubFilePath ''2025-01-04'' ''news/2025-01-04/'') (set colliding_keys)
        (entry_Path ` set (tree_entries
           (download_loop colliding_bucket ''2025-01-04'' ''news/2025-01-04/'' colliding_keys [])))
   \<and> \<not> bij_betw (githubFilePath ''2025-01-04'' ''news/2025-01-04/'')
        {k \<in> set colliding_keys. \<not> isl (DownloadFile colliding_bucket k)}
        (entry_Path ` set (tree_entries
           (download_loop colliding_bucket ''2025-01-04'' ''news/2025-01-04/'' colliding_keys [])))"
proof -
  let ?path = "githubFilePath ''2025-01-04'' ''news/2025-01-04/''"
  let ?entries = "tree_entries
      (download_loop colliding_bucket ''2025-01-04'' ''news/2025-01-04/'' colliding_keys [])"
  have paths: "entry_Path ` set ?entries = {''2025-01-04/2025-01-04_it_1.md''}"
    using colliding_entries by (metis list.set_map list.simps(15) empty_set)
  have p0: "?path ''news/2025-01-04/2025-01-04_it_0.md'' = ''2025-01-04/2025-01-04_it_0.md''"
    by code_simp
  have p1: "?path ''news/2025-01-04/2025-01-04_it_1.md'' = ''2025-01-04/2025-01-04_it_1.md''"
    by code_simp
  have p2: "?path ''news/2025-01-04//2025-01-04_it_1.md'' = ''2025-01-04/2025-01-04_it_1.md''"
    by code_simp
  have missing: "?path ` set colliding_keys \<noteq> entry_Path ` set ?entries"
    unfolding paths by (simp add: colliding_keys_def p0 p1 p2)
  have k1: "''news/2025-01-04/2025-01-04_it_1.md''
      \<in> {k \<in> set colliding_keys. \<not> isl (DownloadFile colliding_bucket k)}"
    by (simp add: colliding_keys_def DownloadFile_def colliding_bucket_def)
  have k2: "''news/2025-01-04//2025-01-04_it_1.md''
      \<in> {k \<in> set colliding_keys. \<not> isl (DownloadFile colliding_bucket k)}"
    by (simp add: colliding_keys_def DownloadFile_def colliding_bucket_def)
  have collide: "\<not> inj_on ?path {k \<in> set colliding_keys. \<not> isl (DownloadFile colliding_bucket k)}"
  proof
    assume "inj_on ?path {k \<in> set colliding_keys. \<not> isl (DownloadFile colliding_bucket k)}"
    from inj_onD [OF this _ k1 k2] p1 p2
    have "''news/2025-01-04/2025-01-04_it_1.md'' = ''news/2025-01-04//2025-01-04_it_1.md''"
      by simp
    then show False by simp
  qed
  from missing collide show ?thesis
    by (simp add: colliding_listing bij_betw_def)
qed

subsection \<open>The fan-out coordinator\<close>

lemma fan_out_append:
  "fan_out env (xs @ ys) = fan_out env xs @ fan_out env ys"
  by (simp add: fan_out_def)

lemma fan_out_single:
  "fan_out env [(category, url)] = processArticles env url category"
  by (simp add: fan_out_def)

lemma Scrape_sends_get:
  "\<forall>r \<in> set (fst (Scrape env url)). \<not> is_s3_upload r \<and> \<not> is_conversion r"
  by (auto simp: Scrape_def Let_def is_s3_upload_def is_conversion_def
      split: sum.splits option.splits if_splits)

lemma ConvertToMarkdown_remote_sends_no_upload:
  "\<forall>r \<in> set (fst (ConvertToMarkdown_remote env a)). \<not> is_s3_upload r"
  by (auto simp: ConvertToMarkdown_remote_def Let_def is_s3_upload_def
      split: sum.splits option.splits if_splits)

lemma processArticles_failed:
  assumes "snd (Scrape env url) = Inl err"
  shows "processArticles env url category = fst (Scrape env url)"
  using assms by (cases "Scrape env url") (simp add: processArticles_def)

lemma processArticles_scraped:
  assumes "snd (Scrape env url) = Inr articles"
  shows "processArticles env url category =
           fst (Scrape env url) @ concat (map (article_task env category) (enumerate 0 articles))"
  using assms by (cases "Scrape env url") (simp add: processArticles_def)

lemma article_task_failed:
  assumes "snd (ConvertToMarkdown_remote env a) = Inl err"
  shows "article_task env category (i, a) = fst (ConvertToMarkdown_remote env a)"
  using assms by (cases "ConvertToMarkdown_remote env a") (simp add: article_task_def)

lemma article_task_converted:
  assumes "snd (ConvertToMarkdown_remote env a) = Inr markdown"
  shows "article_task env category (i, a) =
           fst (ConvertToMarkdown_remote env a) @ fst (UploadToS3 env markdown category i)"
  using assms by (cases "ConvertToMarkdown_remote env a") (simp add: article_task_def)

text \<open>
  Claim C9. For every list of categories, the requests of the fan-out are those of each
  category's \<open>processArticles\<close>, each computed from its own category and source alone:
  whatever happens in one category leaves the others' requests as they are. A category
  whose extraction fails sends nothing but its extraction request (no conversion, no
  upload). In a category whose extraction succeeds every article has its own task; a
  task whose conversion fails sends no upload, a task whose conversion succeeds goes on
  to the upload. The handler returns status 200 after all of them, its publish request
  last. (Tasks are goroutines joined by a wait group and share no state; the model runs
  them one after another.)
\<close>

theorem fan_out_isolates_failures:
  "fan_out env (before @ (category, url) # after) =
     fan_out env before @ processArticles env url category @ fan_out env after
   \<and> (\<forall>err. snd (Scrape env url) = Inl err \<longrightarrow>
        processArticles env url category = fst (Scrape env url)
        \<and> (\<forall>r \<in> set (processArticles env url category). \<not> is_s3_upload r \<and> \<not> is_conversion r))
   \<and> (\<forall>earlier a later. snd (Scrape env url) = Inr (earlier @ a # later) \<longrightarrow>
        processArticles env url category =
          fst (Scrape env url)
          @ concat (map (article_task env category) (enumerate 0 earlier))
          @ article_task env category (length earlier, a)
          @ concat (map (article_task env category) (enumerate (Suc (length earlier)) later)))
   \<and> (\<forall>err. snd (ConvertToMarkdown_remote env a) = Inl err \<longrightarrow>
        article_task env category (i, a) = fst (ConvertToMarkdown_remote env a)
        \<and> (\<forall>r \<in> set (article_task env category (i, a)). \<not> is_s3_upload r))
   \<and> (\<forall>markdown. snd (ConvertToMarkdown_remote env a) = Inr markdown \<longrightarrow>
        article_task env category (i, a) =
          fst (ConvertToMarkdown_remote env a) @ fst (UploadToS3 env markdown category i))
   \<and> Handler_autopush env =
       ((\<lparr>StatusCode = 200, Body = [], Headers = []\<rparr>, None),
        fan_out env urls @ fst (UploadToGitHub env))"
proof (intro conjI allI impI)
  show "fan_out env (before @ (category, url) # after) =
     fan_out env before @ processArticles env url category @ fan_out env after"
    using fan_out_append [of env before "(category, url) # after"]
      fan_out_append [of env "[(category, url)]" after]
    by (simp add: fan_out_single)
next
  fix err assume f: "snd (Scrape env url) = Inl err"
  then show p: "processArticles env url category = fst (Scrape env url)"
    by (rule processArticles_failed)
  show "\<forall>r \<in> set (processArticles env url category). \<not> is_s3_upload r \<and> \<not> is_conversion r"
    unfolding p by (rule Scrape_sends_get)
next
  fix earlier a later
  assume "snd (Scrape env url) = Inr (earlier @ a # later)"
  then show "processArticles env url category =
          fst (Scrape env url)
          @ concat (map (article_task env category) (enumerate 0 earlier))
          @ article_task env category (length earlier, a)
          @ concat (map (article_task env category) (enumerate (Suc (length earlier)) later))"
    by (simp add: processArticles_scraped enumerate_append_eq)
next
  fix err assume f: "snd (ConvertToMarkdown_remote env a) = Inl err"
  then show t: "article_task env category (i, a) = fst (ConvertToMarkdown_remote env a)"
    by (rule article_task_failed)
  show "\<forall>r \<in> set (article_task env category (i, a)). \<not> is_s3_upload r"
    unfolding t by (rule ConvertToMarkdown_remote_sends_no_upload)
next
  fix markdown assume "snd (ConvertToMarkdown_remote env a) = Inr markdown"
  then show "article_task env category (i, a) =
          fst (ConvertToMarkdown_remote env a) @ fst (UploadToS3 env markdown category i)"
    by (rule article_task_converted)
next
  show "Handler_autopush env =
       ((\<lparr>StatusCode = 200, Body = [], Headers = []\<rparr>, None),
        fan_out env urls @ fst (UploadToGitHub env))"
    by (simp add: Handler_autopush_def Let_def)
qed


theorem fan_out_isolates_failures_witness:
  "fan_out example_autopush_env ([(''a'', ''urlA'')] @ (''b'', ''urlB'') # []) =
     fan_out example_autopush_env [(''a'', ''urlA'')]
     @ [\<lparr>req_Method = ''GET'', req_URL = ''https://crawl'',
         req_Query = [(''url'', ''urlB'')], req_Header = [], req_Body = []\<rparr>]
   \<and> processArticles example_autopush_env ''urlA'' ''a'' =
       [\<lparr>req_Method = ''GET'', req_URL = ''https://crawl'',
         req_Query = [(''url'', ''urlA'')], req_Header = [], req_Body = []\<rparr>]
       @ article_task example_autopush_env ''a'' (0, article_one)
       @ [\<lparr>req_Method = ''POST'', req_URL = ''https://convert'', req_Query = [],
           req_Header = [(''Content-Type'', ''application/json'')], req_Body = ''two''\<rparr>]
   \<and> article_task example_autopush_env ''a'' (0, article_one) =
       [\<lparr>req_Method = ''POST'', req_URL = ''https://convert'', req_Query = [],
         req_Header = [(''Content-Type'', ''application/json'')], req_Body = ''one''\<rparr>]
       @ fst (UploadToS3 example_autopush_env ''# markdown'' ''a'' 0)"
proof -
  let ?env = example_autopush_env
  let ?getA = "\<lparr>req_Method = ''GET'', req_URL = ''https://crawl'',
         req_Query = [(''url'', ''urlA'')], req_Header = [], req_Body = []\<rparr>"
  let ?getB = "\<lparr>req_Method = ''GET'', req_URL = ''https://crawl'',
         req_Query = [(''url'', ''urlB'')], req_Header = [], req_Body = []\<rparr>"
  let ?post1 = "\<lparr>req_Method = ''POST'', req_URL = ''https://convert'', req_Query = [],
         req_Header = [(''Content-Type'', ''application/json'')], req_Body = ''one''\<rparr>"
  let ?post2 = "\<lparr>req_Method = ''POST'', req_URL = ''https://convert'', req_Query = [],
         req_Header = [(''Content-Type'', ''application/json'')], req_Body = ''two''\<rparr>"
  have i500: "Itoa 500 = ''500''" by code_simp
  have scrapeB: "Scrape ?env ''urlB'' = ([?getB], Inl ''server returned status code 500'')"
    by (simp add: Scrape_def example_autopush_env_def Let_def i500)
  have scrapeA: "Scrape ?env ''urlA'' = ([?getA], Inr ([article_one] @ article_two # []))"
    by (simp add: Scrape_def example_autopush_env_def Let_def)
  have conv1: "ConvertToMarkdown_remote ?env article_one = ([?post1], Inr ''# markdown'')"
    by (simp add: ConvertToMarkdown_remote_def example_autopush_env_def Let_def article_one_def)
  have conv2: "ConvertToMarkdown_remote ?env article_two
      = ([?post2], Inl ''failed to send HTTP request: timeout'')"
    by (simp add: ConvertToMarkdown_remote_def example_autopush_env_def Let_def article_two_def)
  note all = fan_out_isolates_failures
    [where env = ?env and before = "[(''a'', ''urlA'')]" and category = "''b''"
       and url = "''urlB''" and after = "[]"]
  note allA = fan_out_isolates_failures
    [where env = ?env and before = "[]" and category = "''a''" and url = "''urlA''"
       and after = "[]" and a = article_one and i = 0]
  note allA2 = fan_out_isolates_failures
    [where env = ?env and before = "[]" and category = "''a''" and url = "''urlA''"
       and after = "[]" and a = article_two and i = 1]
  have fB: "snd (Scrape ?env ''urlB'') = Inl ''server returned status code 500''"
    by (simp add: scrapeB)
  have sA: "snd (Scrape ?env ''urlA'') = Inr ([article_one] @ article_two # [])"
    by (simp add: scrapeA)
  have f2: "snd (ConvertToMarkdown_remote ?env article_two)
      = Inl ''failed to send HTTP request: timeout''"
    by (simp add: conv2)
  have s1: "snd (ConvertToMarkdown_remote ?env article_one) = Inr ''# markdown''"
    by (simp add: conv1)
  have skipped: "processArticles ?env ''urlB'' ''b'' = [?getB]"
    using all [THEN conjunct2, THEN conjunct1, rule_format, OF fB, THEN conjunct1]
    by (simp add: scrapeB)
  have whole: "fan_out ?env ([(''a'', ''urlA'')] @ (''b'', ''urlB'') # []) =
      fan_out ?env [(''a'', ''urlA'')] @ [?getB]"
    using all [THEN conjunct1] skipped by (simp add: fan_out_def)
  have task2: "article_task ?env ''a'' (1, article_two) = [?post2]"
    using allA2 [THEN conjunct2, THEN conjunct2, THEN conjunct2, THEN conjunct1, rule_format,
        OF f2, THEN conjunct1]
    by (simp add: conv2)
  have task1: "article_task ?env ''a'' (0, article_one) =
      [?post1] @ fst (UploadToS3 ?env ''# markdown'' ''a'' 0)"
    using allA [THEN conjunct2, THEN conjunct2, THEN conjunct2, THEN conjunct2, THEN conjunct1,
        rule_format, OF s1]
    by (simp add: conv1)
  have catA: "processArticles ?env ''urlA'' ''a'' =
      [?getA] @ article_task ?env ''a'' (0, article_one) @ [?post2]"
    using allA [THEN conjunct2, THEN conjunct2, THEN conjunct1, rule_format, OF sA] task2
    by (simp add: scrapeA enumerate_simps)
  from whole catA task1 show ?thesis by (intro conjI)
qed

subsection \<open>Headline extraction\<close>

lemma headline_callback_invariant:
  assumes "Some [] \<notin> set anchors"
    and "distinct links" and "\<forall>l. seen l = (l \<in> set links)"
    and "\<forall>l \<in> set links. isValidNewsLink D l" and "length links \<le> 5"
  shows "\<exists>links' seen'.
           headline_callback B D anchors (links, seen) = Return (links', seen')
           \<and> distinct links' \<and> length links' \<le> 5
           \<and> (\<forall>l \<in> set links'. isValidNewsLink D l)
           \<and> (links' = [] \<longleftrightarrow>
                links = [] \<and> (\<forall>h. Some h \<in> set anchors \<longrightarrow> \<not> isValidNewsLink D (resolve B h)))"
  using assms
proof (induction anchors arbitrary: links seen)
  case Nil
  then show ?case by simp
next
  case (Cons a anchors)
  from Cons.prems(1) have rest: "Some [] \<notin> set anchors" by simp
  note IH = Cons.IH [OF rest]
  show ?case
  proof (cases "length links \<ge> 5")
    case True
    then have "links \<noteq> []" by auto
    with True Cons.prems show ?thesis by simp
  next
    case short: False
    show ?thesis
    proof (cases a)
      case None
      with short IH [OF Cons.prems(2-5)] show ?thesis by simp
    next
      case (Some href)
      with Cons.prems(1) obtain c r where href: "href = c # r"
        by (cases href) auto
      let ?link = "resolve B href"
      have link: "?link = (if c = CHR ''/'' then B @ href else href)"
        by (simp add: resolve_def href)
      show ?thesis
      proof (cases "isValidNewsLink D ?link \<and> \<not> seen ?link")
        case True
        with Cons.prems have fresh: "?link \<notin> set links" by simp
        have step: "headline_callback B D (a # anchors) (links, seen) =
            headline_callback B D anchors (links @ [?link], seen(?link := True))"
          using short Some href True link by (auto simp: Let_def)
        have "\<exists>links' seen'.
           headline_callback B D anchors (links @ [?link], seen(?link := True))
             = Return (links', seen')
           \<and> distinct links' \<and> length links' \<le> 5
           \<and> (\<forall>l \<in> set links'. isValidNewsLink D l)
           \<and> (links' = [] \<longleftrightarrow>
                links @ [?link] = []
                \<and> (\<forall>h. Some h \<in> set anchors \<longrightarrow> \<not> isValidNewsLink D (resolve B h)))"
        proof (rule IH)
          show "distinct (links @ [?link])" using Cons.prems(2) fresh by simp
          show "\<forall>l. (seen(?link := True)) l = (l \<in> set (links @ [?link]))"
            using Cons.prems(3) by auto
          show "\<forall>l \<in> set (links @ [?link]). isValidNewsLink D l"
            using Cons.prems(4) True by auto
          show "length (links @ [?link]) \<le> 5" using short by simp
        qed
        then obtain links' seen' where
          r: "headline_callback B D anchors (links @ [?link], seen(?link := True))
                = Return (links', seen')"
          and p: "distinct links'" "length links' \<le> 5" "\<forall>l \<in> set links'. isValidNewsLink D l"
          and ne: "links' \<noteq> []"
          by auto
        have "\<not> (links = [] \<and> (\<forall>h. Some h \<in> set (a # anchors)
                  \<longrightarrow> \<not> isValidNewsLink D (resolve B h)))"
          using True Some by auto
        with step r p ne show ?thesis by simp
      next
        case False
        have step: "headline_callback B D (a # anchors) (links, seen) =
            headline_callback B D anchors (links, seen)"
          using short Some href False link by (auto simp: Let_def)
        from IH [OF Cons.prems(2-5)] obtain links' seen' where
          r: "headline_callback B D anchors (links, seen) = Return (links', seen')"
          and p: "distinct links'" "length links' \<le> 5" "\<forall>l \<in> set links'. isValidNewsLink D l"
          and e: "links' = [] \<longleftrightarrow>
                links = [] \<and> (\<forall>h. Some h \<in> set anchors \<longrightarrow> \<not> isValidNewsLink D (resolve B h))"
          by blast
        have "links = [] \<longrightarrow> \<not> isValidNewsLink D ?link"
          using False Cons.prems(3) by auto
        with e Some have "links' = [] \<longleftrightarrow>
                links = [] \<and> (\<forall>h. Some h \<in> set (a # anchors)
                  \<longrightarrow> \<not> isValidNewsLink D (resolve B h))"
          by auto
        with step r p show ?thesis by simp
      qed
    qed
  qed
qed

lemma ScrapeHeadlines_without_empty_href:
  assumes "Some [] \<notin> set anchors"
  shows "(\<exists>links. ScrapeHeadlines B D anchors = Return (Inr links)
            \<and> links \<noteq> [] \<and> length links \<le> 5 \<and> distinct links
            \<and> (\<forall>l \<in> set links. Contains l D \<and> \<not> Contains l ''/comment/'')
            \<and> (\<exists>h. Some h \<in> set anchors \<and> isValidNewsLink D (resolve B h)))
         \<or> (ScrapeHeadlines B D anchors = Return (Inl ''no headlines found'')
            \<and> (\<forall>h. Some h \<in> set anchors \<longrightarrow> \<not> isValidNewsLink D (resolve B h)))"
proof -
  from headline_callback_invariant [OF assms, of "[]" "\<lambda>_. False" D B]
  obtain links' seen' where
    r: "headline_callback B D anchors ([], \<lambda>_. False) = Return (links', seen')"
    and p: "distinct links'" "length links' \<le> 5" "\<forall>l \<in> set links'. isValidNewsLink D l"
    and e: "links' = [] \<longleftrightarrow>
              (\<forall>h. Some h \<in> set anchors \<longrightarrow> \<not> isValidNewsLink D (resolve B h))"
    by auto
  show ?thesis
  proof (cases "links' = []")
    case True
    with r e show ?thesis by (simp add: ScrapeHeadlines_def)
  next
    case False
    with r have "ScrapeHeadlines B D anchors = Return (Inr links')"
      by (simp add: ScrapeHeadlines_def)
    moreover from p have "\<forall>l \<in> set links'. Contains l D \<and> \<not> Contains l ''/comment/''"
      by (simp add: isValidNewsLink_def)
    moreover from False e have "\<exists>h. Some h \<in> set anchors \<and> isValidNewsLink D (resolve B h)"
      by blast
    ultimately show ?thesis using False p by blast
  qed
qed

text \<open>
  Claim C10. On a document without an empty \<open>href\<close>, \<open>ScrapeHeadlines\<close> behaves as
  the claim says (\<open>ScrapeHeadlines_without_empty_href\<close> above): it returns at most five
  links, pairwise distinct, each containing \<open>BASE_URL_DETAIL\<close> and none containing
  \<open>/comment/\<close>, and it returns the error exactly when the document has no valid link.
  On a document whose first anchor has an empty \<open>href\<close> it does neither: \<open>link[0]\<close> is
  read before \<open>isValidNewsLink\<close> checks the length, and the function panics although a
  valid link follows.
\<close>

theorem ScrapeHeadlines_empty_href_panics:
  "ScrapeHeadlines ''https://n.news.naver.com'' ''/mnews/article/''
     [Some '''', Some ''https://n.news.naver.com/mnews/article/001/0000001'']
   = Panic ''index out of range [0] with length 0''"
  by (simp add: ScrapeHeadlines_def)

end
